theory Spec2Isabelle
  imports Complex_Main "HOL-Library.Sublist" "HOL-Library.Log_Nat"
begin

section \<open>JavaScript values, errors and number rendering\<close>

text \<open>
  A thrown JavaScript exception is a value of \<open>js_error\<close>; a function that may throw
  returns \<open>js_error + 'a\<close>, with \<open>Inl\<close> for the exception. The repository only ever
  constructs plain \<^verbatim>\<open>new Error(message)\<close>; \<open>TimeoutError\<close> is what the browser
  engine throws when a wait or an actionability check runs out of time.
\<close>

datatype js_error = Error string | TimeoutError string


text \<open>
  Values of type \<^verbatim>\<open>unknown\<close>. Finite numbers are rationals (every finite double is
  one, and the two zeros are strictly equal), \<open>JNaN\<close> is the one number that is
  not strictly equal to itself, and objects, arrays and functions are references,
  compared by identity.
\<close>

datatype jsvalue =
    JUndefined
  | JNull
  | JBool bool
  | JNum rat
  | JNaN
  | JStr string
  | JRef nat


text \<open>
  The own enumerable properties of an object, in the order \<^verbatim>\<open>Object.entries\<close> gives
  them; a JSON payload is such a list.
\<close>

type_synonym js_object = "(string \<times> jsvalue) list"






text \<open>
  Decimal rendering of an integral number, as \<^verbatim>\<open>Number.prototype.toString\<close> and
  template literals produce it.
\<close>

definition digit_char :: "nat \<Rightarrow> char" where
  "digit_char d = ''0123456789'' ! (d mod 10)"

function nat_toString :: "nat \<Rightarrow> string" where
  "nat_toString n =
     (if n < 10 then [digit_char n] else nat_toString (n div 10) @ [digit_char (n mod 10)])"
  by pat_completeness auto
termination
  by (relation "measure (\<lambda>n. n)") auto

declare nat_toString.simps [simp del]

definition number_toString :: "int \<Rightarrow> string" where
  "number_toString i = (if i < 0 then CHR ''-'' # nat_toString (nat (- i)) else nat_toString (nat i))"

section \<open>Response validation helpers (src/utils/apiClient.ts)\<close>

text \<open>
  The part of a response that \<^verbatim>\<open>assertStatus\<close> reads: \<^verbatim>\<open>{ status: () => number }\<close>.
  A status code is an integer, so \<^verbatim>\<open>!==\<close> on two of them is disequality.
\<close>

record response =
  status :: int
  body :: js_object

definition status_message :: "int \<Rightarrow> int \<Rightarrow> string" where
  "status_message expectedStatus actualStatus =
     ''Expected status '' @ number_toString expectedStatus @ '', but got '' @ number_toString actualStatus"

definition assertStatus :: "response \<Rightarrow> int \<Rightarrow> js_error + unit" where
  "assertStatus resp expectedStatus =
     (let actualStatus = status resp in
      if actualStatus \<noteq> expectedStatus
      then Inl (Error (status_message expectedStatus actualStatus))
      else Inr ())"





section \<open>The API client (src/utils/apiClient.ts)\<close>

text \<open>
  The HTTP layer is external. A request context carries what \<^verbatim>\<open>request.newContext\<close> was
  given; a request is a verb, a path and an optional JSON payload. The network is the
  list of requests issued so far, and the parameter \<open>srv\<close> of every operation is the
  answer of the system under test (a response, or a transport failure).
\<close>

record api_context =
  ctx_baseURL :: string
  extraHTTPHeaders :: "(string \<times> string) list"
  ignoreHTTPSErrors :: bool

datatype http_verb = GET | POST | PATCH | DELETE

record request =
  verb :: http_verb
  url :: string
  payload :: "js_object option"

type_synonym server = "api_context \<Rightarrow> request \<Rightarrow> js_error + response"

type_synonym network = "(api_context \<times> request) list"

definition send :: "server \<Rightarrow> api_context \<Rightarrow> request \<Rightarrow> network \<Rightarrow> (js_error + response) \<times> network" where
  "send srv context req net = (srv context req, net @ [(context, req)])"

definition context_get :: "server \<Rightarrow> api_context \<Rightarrow> string \<Rightarrow> network \<Rightarrow> (js_error + response) \<times> network" where
  "context_get srv context path = send srv context \<lparr>verb = GET, url = path, payload = None\<rparr>"

definition context_post :: "server \<Rightarrow> api_context \<Rightarrow> string \<Rightarrow> js_object \<Rightarrow> network \<Rightarrow> (js_error + response) \<times> network" where
  "context_post srv context path d = send srv context \<lparr>verb = POST, url = path, payload = Some d\<rparr>"

definition context_patch :: "server \<Rightarrow> api_context \<Rightarrow> string \<Rightarrow> js_object \<Rightarrow> network \<Rightarrow> (js_error + response) \<times> network" where
  "context_patch srv context path d = send srv context \<lparr>verb = PATCH, url = path, payload = Some d\<rparr>"

definition context_delete :: "server \<Rightarrow> api_context \<Rightarrow> string \<Rightarrow> network \<Rightarrow> (js_error + response) \<times> network" where
  "context_delete srv context path = send srv context \<lparr>verb = DELETE, url = path, payload = None\<rparr>"

text \<open>The class \<^verbatim>\<open>DmsApiClient\<close>: its three private fields.\<close>

record DmsApiClient =
  apiContext :: "api_context option"
  baseURL :: string
  authToken :: string

text \<open>The constructor reads \<^verbatim>\<open>apiTestData.auth\<close>, passed here as its two strings.\<close>

definition new_DmsApiClient :: "string \<Rightarrow> string \<Rightarrow> DmsApiClient" where
  "new_DmsApiClient authBaseUrl token = \<lparr>apiContext = None, baseURL = authBaseUrl, authToken = token\<rparr>"

definition init :: "DmsApiClient \<Rightarrow> DmsApiClient" where
  "init c = c\<lparr>apiContext := Some
     \<lparr>ctx_baseURL = baseURL c,
      extraHTTPHeaders = [(''Authorization'', ''Bearer '' @ authToken c),
                          (''Content-Type'', ''application/json'')],
      ignoreHTTPSErrors = True\<rparr>\<rparr>"

definition not_initialized :: js_error where
  "not_initialized = Error ''API context not initialized. Call init() before making requests.''"

definition getContext :: "DmsApiClient \<Rightarrow> js_error + api_context" where
  "getContext c = (case apiContext c of None \<Rightarrow> Inl not_initialized | Some context \<Rightarrow> Inr context)"

text \<open>
  Every public operation starts with \<^verbatim>\<open>const context = this.getContext()\<close>, whose
  exception leaves the method before anything else runs.
\<close>

definition getRepairOrders :: "server \<Rightarrow> DmsApiClient \<Rightarrow> network \<Rightarrow> (js_error + response) \<times> network" where
  "getRepairOrders srv c net =
     (case getContext c of Inl e \<Rightarrow> (Inl e, net)
      | Inr context \<Rightarrow> context_get srv context ''/repair-orders'' net)"

definition getRepairOrderById :: "server \<Rightarrow> DmsApiClient \<Rightarrow> string \<Rightarrow> network \<Rightarrow> (js_error + response) \<times> network" where
  "getRepairOrderById srv c orderId net =
     (case getContext c of Inl e \<Rightarrow> (Inl e, net)
      | Inr context \<Rightarrow> context_get srv context (''/repair-orders/'' @ orderId) net)"

definition createRepairOrder :: "server \<Rightarrow> DmsApiClient \<Rightarrow> js_object \<Rightarrow> network \<Rightarrow> (js_error + response) \<times> network" where
  "createRepairOrder srv c orderData net =
     (case getContext c of Inl e \<Rightarrow> (Inl e, net)
      | Inr context \<Rightarrow> context_post srv context ''/repair-orders'' orderData net)"

definition updateRepairOrder :: "server \<Rightarrow> DmsApiClient \<Rightarrow> string \<Rightarrow> js_object \<Rightarrow> network \<Rightarrow> (js_error + response) \<times> network" where
  "updateRepairOrder srv c orderId updateData net =
     (case getContext c of Inl e \<Rightarrow> (Inl e, net)
      | Inr context \<Rightarrow> context_patch srv context (''/repair-orders/'' @ orderId) updateData net)"

definition deleteRepairOrder :: "server \<Rightarrow> DmsApiClient \<Rightarrow> string \<Rightarrow> network \<Rightarrow> (js_error + response) \<times> network" where
  "deleteRepairOrder srv c orderId net =
     (case getContext c of Inl e \<Rightarrow> (Inl e, net)
      | Inr context \<Rightarrow> context_delete srv context (''/repair-orders/'' @ orderId) net)"

text \<open>
  \<open>urlSearchParams\<close> stands for \<^verbatim>\<open>new URLSearchParams(filters).toString()\<close>, a
  library function of the platform.
\<close>

definition searchRepairOrders ::
  "server \<Rightarrow> ((string \<times> string) list \<Rightarrow> string) \<Rightarrow> DmsApiClient \<Rightarrow> (string \<times> string) list \<Rightarrow> network
     \<Rightarrow> (js_error + response) \<times> network" where
  "searchRepairOrders srv urlSearchParams c filters net =
     (case getContext c of Inl e \<Rightarrow> (Inl e, net)
      | Inr context \<Rightarrow>
          (let queryParams = urlSearchParams filters
           in context_get srv context (''/repair-orders?'' @ queryParams) net))"

definition getAppointments :: "server \<Rightarrow> DmsApiClient \<Rightarrow> network \<Rightarrow> (js_error + response) \<times> network" where
  "getAppointments srv c net =
     (case getContext c of Inl e \<Rightarrow> (Inl e, net)
      | Inr context \<Rightarrow> context_get srv context ''/appointments'' net)"

definition getAppointmentById :: "server \<Rightarrow> DmsApiClient \<Rightarrow> string \<Rightarrow> network \<Rightarrow> (js_error + response) \<times> network" where
  "getAppointmentById srv c appointmentId net =
     (case getContext c of Inl e \<Rightarrow> (Inl e, net)
      | Inr context \<Rightarrow> context_get srv context (''/appointments/'' @ appointmentId) net)"

definition createAppointment :: "server \<Rightarrow> DmsApiClient \<Rightarrow> js_object \<Rightarrow> network \<Rightarrow> (js_error + response) \<times> network" where
  "createAppointment srv c appointmentData net =
     (case getContext c of Inl e \<Rightarrow> (Inl e, net)
      | Inr context \<Rightarrow> context_post srv context ''/appointments'' appointmentData net)"

definition updateAppointment :: "server \<Rightarrow> DmsApiClient \<Rightarrow> string \<Rightarrow> js_object \<Rightarrow> network \<Rightarrow> (js_error + response) \<times> network" where
  "updateAppointment srv c appointmentId updateData net =
     (case getContext c of Inl e \<Rightarrow> (Inl e, net)
      | Inr context \<Rightarrow> context_patch srv context (''/appointments/'' @ appointmentId) updateData net)"

definition cancelAppointment :: "server \<Rightarrow> DmsApiClient \<Rightarrow> string \<Rightarrow> network \<Rightarrow> (js_error + response) \<times> network" where
  "cancelAppointment srv c appointmentId net =
     (case getContext c of Inl e \<Rightarrow> (Inl e, net)
      | Inr context \<Rightarrow> context_delete srv context (''/appointments/'' @ appointmentId) net)"

definition authenticate :: "server \<Rightarrow> DmsApiClient \<Rightarrow> string \<Rightarrow> string \<Rightarrow> network \<Rightarrow> (js_error + response) \<times> network" where
  "authenticate srv c username password net =
     (case getContext c of Inl e \<Rightarrow> (Inl e, net)
      | Inr context \<Rightarrow>
          context_post srv context ''/auth/login''
            [(''username'', JStr username), (''password'', JStr password)] net)"

definition validateToken :: "server \<Rightarrow> DmsApiClient \<Rightarrow> network \<Rightarrow> (js_error + response) \<times> network" where
  "validateToken srv c net =
     (case getContext c of Inl e \<Rightarrow> (Inl e, net)
      | Inr context \<Rightarrow> context_get srv context ''/auth/validate'' net)"

definition get :: "server \<Rightarrow> DmsApiClient \<Rightarrow> string \<Rightarrow> network \<Rightarrow> (js_error + response) \<times> network" where
  "get srv c endpoint net =
     (case getContext c of Inl e \<Rightarrow> (Inl e, net)
      | Inr context \<Rightarrow> context_get srv context endpoint net)"

definition post :: "server \<Rightarrow> DmsApiClient \<Rightarrow> string \<Rightarrow> js_object \<Rightarrow> network \<Rightarrow> (js_error + response) \<times> network" where
  "post srv c endpoint d net =
     (case getContext c of Inl e \<Rightarrow> (Inl e, net)
      | Inr context \<Rightarrow> context_post srv context endpoint d net)"

definition patch :: "server \<Rightarrow> DmsApiClient \<Rightarrow> string \<Rightarrow> js_object \<Rightarrow> network \<Rightarrow> (js_error + response) \<times> network" where
  "patch srv c endpoint d net =
     (case getContext c of Inl e \<Rightarrow> (Inl e, net)
      | Inr context \<Rightarrow> context_patch srv context endpoint d net)"

definition delete :: "server \<Rightarrow> DmsApiClient \<Rightarrow> string \<Rightarrow> network \<Rightarrow> (js_error + response) \<times> network" where
  "delete srv c endpoint net =
     (case getContext c of Inl e \<Rightarrow> (Inl e, net)
      | Inr context \<Rightarrow> context_delete srv context endpoint net)"

text \<open>One constructor per public operation that issues a request, with its arguments.\<close>

datatype api_call =
    GetRepairOrders
  | GetRepairOrderById string
  | CreateRepairOrder js_object
  | UpdateRepairOrder string js_object
  | DeleteRepairOrder string
  | SearchRepairOrders "(string \<times> string) list"
  | GetAppointments
  | GetAppointmentById string
  | CreateAppointment js_object
  | UpdateAppointment string js_object
  | CancelAppointment string
  | Authenticate string string
  | ValidateToken
  | Get string
  | Post string js_object
  | Patch string js_object
  | Delete string

fun invoke ::
  "server \<Rightarrow> ((string \<times> string) list \<Rightarrow> string) \<Rightarrow> DmsApiClient \<Rightarrow> api_call \<Rightarrow> network
     \<Rightarrow> (js_error + response) \<times> network" where
  "invoke srv usp c GetRepairOrders = getRepairOrders srv c"
| "invoke srv usp c (GetRepairOrderById orderId) = getRepairOrderById srv c orderId"
| "invoke srv usp c (CreateRepairOrder orderData) = createRepairOrder srv c orderData"
| "invoke srv usp c (UpdateRepairOrder orderId updateData) = updateRepairOrder srv c orderId updateData"
| "invoke srv usp c (DeleteRepairOrder orderId) = deleteRepairOrder srv c orderId"
| "invoke srv usp c (SearchRepairOrders filters) = searchRepairOrders srv usp c filters"
| "invoke srv usp c GetAppointments = getAppointments srv c"
| "invoke srv usp c (GetAppointmentById appointmentId) = getAppointmentById srv c appointmentId"
| "invoke srv usp c (CreateAppointment appointmentData) = createAppointment srv c appointmentData"
| "invoke srv usp c (UpdateAppointment appointmentId updateData) = updateAppointment srv c appointmentId updateData"
| "invoke srv usp c (CancelAppointment appointmentId) = cancelAppointment srv c appointmentId"
| "invoke srv usp c (Authenticate username password) = authenticate srv c username password"
| "invoke srv usp c ValidateToken = validateToken srv c"
| "invoke srv usp c (Get endpoint) = get srv c endpoint"
| "invoke srv usp c (Post endpoint d) = post srv c endpoint d"
| "invoke srv usp c (Patch endpoint d) = patch srv c endpoint d"
| "invoke srv usp c (Delete endpoint) = delete srv c endpoint"

section \<open>The browser engine and the base page (src/pages/BasePage.ts)\<close>

text \<open>
  A locator is built from the page by a selector (\<^verbatim>\<open>page.locator(sel)\<close>) or from
  another locator (\<^verbatim>\<open>parent.locator(sel)\<close>).
\<close>

datatype locator = Page_locator string | Sub_locator locator string

datatype wait_state = Visible | Hidden

text \<open>The calls the page objects make to the engine; \<open>trace\<close> records them in order.\<close>

datatype action =
    Click locator
  | Fill locator string
  | SelectOption locator string
  | TextContent locator
  | WaitFor locator wait_state "nat option"
  | WaitForTimeout nat

fun target :: "action \<Rightarrow> locator option" where
  "target (Click l) = Some l"
| "target (Fill l text) = Some l"
| "target (SelectOption l v) = Some l"
| "target (TextContent l) = Some l"
| "target (WaitFor l st t) = Some l"
| "target (WaitForTimeout ms) = None"

text \<open>
  The engine is external: each primitive takes the state \<open>'d\<close> of the rendered page
  and returns its result, or the exception it throws, with the state afterwards.
  Nothing is assumed about the page under test.
\<close>

record 'd engine =
  locator_click :: "locator \<Rightarrow> 'd \<Rightarrow> (js_error + unit) \<times> 'd"
  locator_fill :: "locator \<Rightarrow> string \<Rightarrow> 'd \<Rightarrow> (js_error + unit) \<times> 'd"
  locator_selectOption :: "locator \<Rightarrow> string \<Rightarrow> 'd \<Rightarrow> (js_error + unit) \<times> 'd"
  locator_textContent :: "locator \<Rightarrow> 'd \<Rightarrow> (js_error + string option) \<times> 'd"
  locator_waitFor :: "locator \<Rightarrow> wait_state \<Rightarrow> nat option \<Rightarrow> 'd \<Rightarrow> (js_error + unit) \<times> 'd"
  page_waitForTimeout :: "nat \<Rightarrow> 'd \<Rightarrow> (js_error + unit) \<times> 'd"

record 'd browser =
  dom :: 'd
  trace :: "action list"

text \<open>An \<^verbatim>\<open>async\<close> method: it runs on the browser and returns a value or throws.\<close>

type_synonym ('d, 'a) task = "'d browser \<Rightarrow> (js_error + 'a) \<times> 'd browser"

definition engine_call :: "action \<Rightarrow> ('d \<Rightarrow> (js_error + 'a) \<times> 'd) \<Rightarrow> ('d, 'a) task" where
  "engine_call a f s = (case f (dom s) of (r, d') \<Rightarrow> (r, \<lparr>dom = d', trace = trace s @ [a]\<rparr>))"

definition return :: "'a \<Rightarrow> ('d, 'a) task" where
  "return x s = (Inr x, s)"

text \<open>\<^verbatim>\<open>const x = await m; ...\<close>: an exception of \<open>m\<close> leaves the method.\<close>

definition await :: "('d, 'a) task \<Rightarrow> ('a \<Rightarrow> ('d, 'b) task) \<Rightarrow> ('d, 'b) task" where
  "await m f s = (case m s of (Inl e, s') \<Rightarrow> (Inl e, s') | (Inr x, s') \<Rightarrow> f x s')"

text \<open>A block of awaited statements, run in order up to the first exception.\<close>

fun sequence :: "('d, unit) task list \<Rightarrow> ('d, unit) task" where
  "sequence [] = return ()"
| "sequence (m # ms) = await m (\<lambda>_. sequence ms)"

text \<open>The actions a task issues when run from \<open>s\<close>.\<close>

definition issued :: "('d, 'a) task \<Rightarrow> 'd browser \<Rightarrow> action list" where
  "issued m s = drop (length (trace s)) (trace (snd (m s)))"

definition isVisible :: "'d engine \<Rightarrow> locator \<Rightarrow> ('d, bool) task" where
  "isVisible eng locator s =
     (case engine_call (WaitFor locator Visible (Some 5000))
             (locator_waitFor eng locator Visible (Some 5000)) s of
        (Inr _, s') \<Rightarrow> (Inr True, s')
      | (Inl _, s') \<Rightarrow> (Inr False, s'))"

definition click :: "'d engine \<Rightarrow> locator \<Rightarrow> ('d, unit) task" where
  "click eng locator = engine_call (Click locator) (locator_click eng locator)"

definition fill :: "'d engine \<Rightarrow> locator \<Rightarrow> string \<Rightarrow> ('d, unit) task" where
  "fill eng locator text = engine_call (Fill locator text) (locator_fill eng locator text)"

definition selectDropdown :: "'d engine \<Rightarrow> locator \<Rightarrow> string \<Rightarrow> ('d, unit) task" where
  "selectDropdown eng locator v =
     engine_call (SelectOption locator v) (locator_selectOption eng locator v)"

text \<open>\<^verbatim>\<open>(await locator.textContent()) || ""\<close>: \<^verbatim>\<open>null\<close> and the empty string give \<open>''''\<close>.\<close>

definition getText :: "'d engine \<Rightarrow> locator \<Rightarrow> ('d, string) task" where
  "getText eng locator =
     await (engine_call (TextContent locator) (locator_textContent eng locator))
       (\<lambda>content. return (case content of None \<Rightarrow> [] | Some text \<Rightarrow> if text = [] then [] else text))"

definition wait :: "'d engine \<Rightarrow> nat \<Rightarrow> ('d, unit) task" where
  "wait eng milliseconds =
     engine_call (WaitForTimeout milliseconds) (page_waitForTimeout eng milliseconds)"

text \<open>
  \<^verbatim>\<open>if (data.field) { ... data.field ... }\<close> on a property of type \<^verbatim>\<open>string | undefined\<close>:
  the body runs when the property is a non-empty string.
\<close>

definition if_truthy :: "string option \<Rightarrow> (string \<Rightarrow> ('d, unit) task) \<Rightarrow> ('d, unit) task" where
  "if_truthy v f = (case v of None \<Rightarrow> return () | Some text \<Rightarrow> if text = [] then return () else f text)"

section \<open>The repair orders page (src/pages/RepairOrdersPage.ts)\<close>

definition customerNameInput :: locator where
  \<open>customerNameInput = Page_locator ''input[name="customerName"]''\<close>

definition vehicleVinInput :: locator where
  \<open>vehicleVinInput = Page_locator ''input[name="vehicleVin"]''\<close>

definition vehicleMakeInput :: locator where
  \<open>vehicleMakeInput = Page_locator ''input[name="vehicleMake"]''\<close>

definition vehicleModelInput :: locator where
  \<open>vehicleModelInput = Page_locator ''input[name="vehicleModel"]''\<close>

definition vehicleYearInput :: locator where
  \<open>vehicleYearInput = Page_locator ''input[name="vehicleYear"]''\<close>

definition descriptionInput :: locator where
  \<open>descriptionInput = Page_locator ''textarea[name="description"]''\<close>

definition estimatedCostInput :: locator where
  \<open>estimatedCostInput = Page_locator ''input[name="estimatedCost"]''\<close>

definition statusDropdown :: locator where
  \<open>statusDropdown = Page_locator ''select[name="status"]''\<close>

text \<open>The parameter of \<^verbatim>\<open>fillRepairOrderForm\<close>: every property is optional.\<close>

record RepairOrderData =
  customerName :: "string option"
  vehicleVin :: "string option"
  vehicleMake :: "string option"
  vehicleModel :: "string option"
  vehicleYear :: "string option"
  description :: "string option"
  estimatedCost :: "string option"
  status :: "string option"

definition fillRepairOrderForm :: "'d engine \<Rightarrow> RepairOrderData \<Rightarrow> ('d, unit) task" where
  "fillRepairOrderForm eng orderData =
     sequence
       [if_truthy (RepairOrderData.customerName orderData) (fill eng customerNameInput),
        if_truthy (RepairOrderData.vehicleVin orderData) (fill eng vehicleVinInput),
        if_truthy (RepairOrderData.vehicleMake orderData) (fill eng vehicleMakeInput),
        if_truthy (RepairOrderData.vehicleModel orderData) (fill eng vehicleModelInput),
        if_truthy (RepairOrderData.vehicleYear orderData) (fill eng vehicleYearInput),
        if_truthy (RepairOrderData.description orderData) (fill eng descriptionInput),
        if_truthy (RepairOrderData.estimatedCost orderData) (fill eng estimatedCostInput),
        if_truthy (RepairOrderData.status orderData) (selectDropdown eng statusDropdown)]"

text \<open>Each control of the form with the property of the payload that fills it.\<close>

definition repairOrderForm :: "(locator \<times> (RepairOrderData \<Rightarrow> string option)) list" where
  "repairOrderForm =
     [(customerNameInput, RepairOrderData.customerName),
      (vehicleVinInput, RepairOrderData.vehicleVin),
      (vehicleMakeInput, RepairOrderData.vehicleMake),
      (vehicleModelInput, RepairOrderData.vehicleModel),
      (vehicleYearInput, RepairOrderData.vehicleYear),
      (descriptionInput, RepairOrderData.description),
      (estimatedCostInput, RepairOrderData.estimatedCost),
      (statusDropdown, RepairOrderData.status)]"

section \<open>The appointments page (src/pages/AppointmentsPage.ts)\<close>

definition calendar :: locator where
  \<open>calendar = Page_locator ''.calendar, [role="calendar"]''\<close>

definition currentMonthLabel :: locator where
  "currentMonthLabel = Sub_locator calendar ''.month-label, .current-month''"

definition nextMonthButton :: locator where
  \<open>nextMonthButton = Sub_locator calendar ''button:has-text("Next"), .next-month''\<close>

definition previousMonthButton :: locator where
  \<open>previousMonthButton = Sub_locator calendar ''button:has-text("Previous"), .prev-month''\<close>

text \<open>
  The customer-name and VIN inputs of this page have the selectors of the repair
  orders page, so \<open>customerNameInput\<close> and \<open>vehicleVinInput\<close> above are theirs too.
\<close>

definition phoneNumberInput :: locator where
  \<open>phoneNumberInput = Page_locator ''input[name="phoneNumber"], input[type="tel"]''\<close>

definition emailInput :: locator where
  \<open>emailInput = Page_locator ''input[name="email"], input[type="email"]''\<close>

definition serviceTypeDropdown :: locator where
  \<open>serviceTypeDropdown = Page_locator ''select[name="serviceType"]''\<close>

definition preferredDateInput :: locator where
  \<open>preferredDateInput = Page_locator ''input[name="preferredDate"], input[type="date"]''\<close>

definition preferredTimeDropdown :: locator where
  \<open>preferredTimeDropdown = Page_locator ''select[name="preferredTime"]''\<close>

definition notesTextarea :: locator where
  \<open>notesTextarea = Page_locator ''textarea[name="notes"]''\<close>

text \<open>
  The calendar methods only click a control, pause for 500 ms and read the label; the
  month shown is state of the page under test.
\<close>

definition getCurrentMonth :: "'d engine \<Rightarrow> ('d, string) task" where
  "getCurrentMonth eng = getText eng currentMonthLabel"

definition goToNextMonth :: "'d engine \<Rightarrow> ('d, unit) task" where
  "goToNextMonth eng = await (click eng nextMonthButton) (\<lambda>_. wait eng 500)"

definition goToPreviousMonth :: "'d engine \<Rightarrow> ('d, unit) task" where
  "goToPreviousMonth eng = await (click eng previousMonthButton) (\<lambda>_. wait eng 500)"

record AppointmentData =
  customerName :: "string option"
  phoneNumber :: "string option"
  email :: "string option"
  serviceType :: "string option"
  vehicleVin :: "string option"
  preferredDate :: "string option"
  preferredTime :: "string option"
  "notes" :: "string option"

definition fillAppointmentForm :: "'d engine \<Rightarrow> AppointmentData \<Rightarrow> ('d, unit) task" where
  "fillAppointmentForm eng appointmentData =
     sequence
       [if_truthy (AppointmentData.customerName appointmentData) (fill eng customerNameInput),
        if_truthy (AppointmentData.phoneNumber appointmentData) (fill eng phoneNumberInput),
        if_truthy (AppointmentData.email appointmentData) (fill eng emailInput),
        if_truthy (AppointmentData.serviceType appointmentData) (selectDropdown eng serviceTypeDropdown),
        if_truthy (AppointmentData.vehicleVin appointmentData) (fill eng vehicleVinInput),
        if_truthy (AppointmentData.preferredDate appointmentData) (fill eng preferredDateInput),
        if_truthy (AppointmentData.preferredTime appointmentData) (selectDropdown eng preferredTimeDropdown),
        if_truthy (AppointmentData.notes appointmentData) (fill eng notesTextarea)]"

definition appointmentForm :: "(locator \<times> (AppointmentData \<Rightarrow> string option)) list" where
  "appointmentForm =
     [(customerNameInput, AppointmentData.customerName),
      (phoneNumberInput, AppointmentData.phoneNumber),
      (emailInput, AppointmentData.email),
      (serviceTypeDropdown, AppointmentData.serviceType),
      (vehicleVinInput, AppointmentData.vehicleVin),
      (preferredDateInput, AppointmentData.preferredDate),
      (preferredTimeDropdown, AppointmentData.preferredTime),
      (notesTextarea, AppointmentData.notes)]"

section \<open>The platform's strings, dates and random numbers\<close>

text \<open>\<^verbatim>\<open>String.prototype.padStart\<close> with a one-character filler, and \<^verbatim>\<open>charAt\<close>.\<close>

definition padStart :: "nat \<Rightarrow> char \<Rightarrow> string \<Rightarrow> string" where
  "padStart targetLength c s = replicate (targetLength - length s) c @ s"

definition charAt :: "string \<Rightarrow> int \<Rightarrow> string" where
  "charAt s pos = (if 0 \<le> pos \<and> pos < int (length s) then [s ! nat pos] else [])"

text \<open>
  Numbers are IEEE 754 doubles. A finite double is the real number it denotes, and an
  arithmetic operation returns its exact result rounded to the nearest double, ties to
  even (\<open>round_double\<close>, for magnitudes below \<open>2 ^ 1024\<close>): doubles with exponent
  \<open>e\<close> are the multiples of \<open>2 ^ (e - 52)\<close>, and \<open>e\<close> is never below -1022, which
  gives the subnormal numbers their spacing. \<open>fmul\<close> is the operator \<^verbatim>\<open>*\<close>;
  \<^verbatim>\<open>Math.floor\<close> of a double is its exact floor.
\<close>

text \<open>
  \<open>exponent x\<close> is the integer \<open>e\<close> with \<open>2 ^ e \<le> \<bar>x\<bar> < 2 ^ (e + 1)\<close>,
  computed from bit lengths, and -1022 where that integer would be smaller.
\<close>

definition exponent :: "real \<Rightarrow> int" where
  "exponent x =
     (let a = \<bar>x\<bar>
      in max (- 1022) (if 1 \<le> a then bitlen \<lfloor>a\<rfloor> - 1 else - bitlen (\<lceil>1 / a\<rceil> - 1)))"

definition ulp :: "real \<Rightarrow> real" where
  "ulp x = 2 powi (exponent x - 52)"

definition round_half_even :: "real \<Rightarrow> int" where
  "round_half_even t =
     (let f = \<lfloor>t\<rfloor>; d = t - of_int f
      in if d < 1 / 2 then f else if 1 / 2 < d then f + 1 else if even f then f else f + 1)"

definition round_double :: "real \<Rightarrow> real" where
  "round_double x = of_int (round_half_even (x / ulp x)) * ulp x"

definition is_double :: "real \<Rightarrow> bool" where
  "is_double x = (round_double x = x)"

definition fmul :: "real \<Rightarrow> real \<Rightarrow> real" where
  "fmul a b = round_double (a * b)"

text \<open>
  A \<^verbatim>\<open>Date\<close> is its time value: milliseconds since 1970-01-01T00:00:00Z. The local
  time zone is a fixed offset \<open>tz\<close>, in minutes east of UTC (no daylight saving
  change between the two dates involved). The functions below are those of the
  language specification: \<open>Day\<close>, \<open>WeekDay\<close> (0 is Sunday), the civil date of a
  day number in the proleptic Gregorian calendar, \<open>MakeDay\<close> and \<open>MakeDate\<close>.
\<close>

definition msPerDay :: int where
  "msPerDay = 86400000"

definition Day :: "int \<Rightarrow> int" where
  "Day t = t div msPerDay"

definition TimeWithinDay :: "int \<Rightarrow> int" where
  "TimeWithinDay t = t mod msPerDay"

definition WeekDay :: "int \<Rightarrow> int" where
  "WeekDay t = (Day t + 4) mod 7"

definition LocalTime :: "int \<Rightarrow> int \<Rightarrow> int" where
  "LocalTime tz t = t + tz * 60000"

definition UTC :: "int \<Rightarrow> int \<Rightarrow> int" where
  "UTC tz t = t - tz * 60000"

definition civil_from_days :: "int \<Rightarrow> int \<times> int \<times> int" where
  "civil_from_days z0 =
     (let z = z0 + 719468;
          era = z div 146097;
          doe = z - era * 146097;
          yoe = (doe - doe div 1460 + doe div 36524 - doe div 146096) div 365;
          y = yoe + era * 400;
          doy = doe - (365 * yoe + yoe div 4 - yoe div 100);
          mp = (5 * doy + 2) div 153;
          d = doy - (153 * mp + 2) div 5 + 1;
          m = (if mp < 10 then mp + 3 else mp - 9)
      in (if m \<le> 2 then y + 1 else y, m, d))"

definition days_from_civil :: "int \<Rightarrow> int \<Rightarrow> int \<Rightarrow> int" where
  "days_from_civil y0 m d =
     (let y = (if m \<le> 2 then y0 - 1 else y0);
          era = y div 400;
          yoe = y - era * 400;
          doy = (153 * (if m > 2 then m - 3 else m + 9) + 2) div 5 + d - 1;
          doe = yoe * 365 + yoe div 4 - yoe div 100 + doy
      in era * 146097 + doe - 719468)"

definition YearFromTime :: "int \<Rightarrow> int" where
  "YearFromTime t = (case civil_from_days (Day t) of (y, m, d) \<Rightarrow> y)"

definition MonthFromTime :: "int \<Rightarrow> int" where
  "MonthFromTime t = (case civil_from_days (Day t) of (y, m, d) \<Rightarrow> m - 1)"

definition DateFromTime :: "int \<Rightarrow> int" where
  "DateFromTime t = (case civil_from_days (Day t) of (y, m, d) \<Rightarrow> d)"

definition MakeDay :: "int \<Rightarrow> int \<Rightarrow> int \<Rightarrow> int" where
  "MakeDay year month date = days_from_civil (year + month div 12) (month mod 12 + 1) 1 + date - 1"

definition MakeDate :: "int \<Rightarrow> int \<Rightarrow> int" where
  "MakeDate day time = day * msPerDay + time"

definition getDay :: "int \<Rightarrow> int \<Rightarrow> int" where
  "getDay tz t = WeekDay (LocalTime tz t)"

definition getDate :: "int \<Rightarrow> int \<Rightarrow> int" where
  "getDate tz t = DateFromTime (LocalTime tz t)"

definition getFullYear :: "int \<Rightarrow> int \<Rightarrow> int" where
  "getFullYear tz t = YearFromTime (LocalTime tz t)"

definition setDate :: "int \<Rightarrow> int \<Rightarrow> int \<Rightarrow> int" where
  "setDate tz t date =
     (let lt = LocalTime tz t
      in UTC tz (MakeDate (MakeDay (YearFromTime lt) (MonthFromTime lt) date) (TimeWithinDay lt)))"

definition pad_number :: "nat \<Rightarrow> int \<Rightarrow> string" where
  "pad_number width i = padStart width CHR ''0'' (nat_toString (nat i))"

text \<open>
  \<^verbatim>\<open>toISOString\<close> renders the time value in UTC; years outside 0..9999 take a sign and
  six digits. \<open>before_T\<close> is \<^verbatim>\<open>.split("T")[0]\<close>.
\<close>

definition toISOString :: "int \<Rightarrow> string" where
  "toISOString t =
     (case civil_from_days (Day t) of (y, m, d) \<Rightarrow>
        (if 0 \<le> y \<and> y \<le> 9999 then pad_number 4 y
         else (if y < 0 then ''-'' else ''+'') @ pad_number 6 \<bar>y\<bar>)
        @ ''-'' @ pad_number 2 m @ ''-'' @ pad_number 2 d @ ''T''
        @ pad_number 2 (TimeWithinDay t div 3600000) @ '':''
        @ pad_number 2 (TimeWithinDay t div 60000 mod 60) @ '':''
        @ pad_number 2 (TimeWithinDay t div 1000 mod 60) @ ''.''
        @ pad_number 3 (TimeWithinDay t mod 1000) @ ''Z'')"

definition before_T :: "string \<Rightarrow> string" where
  "before_T s = takeWhile (\<lambda>c. c \<noteq> CHR ''T'') s"

section \<open>Test data helpers (src/utils/testData.ts)\<close>

text \<open>\<open>now\<close> is the time value of \<^verbatim>\<open>new Date()\<close>.\<close>

definition getNextBusinessDay :: "int \<Rightarrow> int \<Rightarrow> string" where
  "getNextBusinessDay tz now =
     (let today = now;
          daysToAdd = 1;
          daysToAdd = (if getDay tz today = 5 then 3 else daysToAdd);
          daysToAdd = (if getDay tz today = 6 then 2 else daysToAdd);
          nextDay = today;
          nextDay = setDate tz nextDay (getDate tz today + daysToAdd)
      in before_T (toISOString nextDay))"

text \<open>
  \<open>random\<close> gives the results of the successive calls of \<^verbatim>\<open>Math.random()\<close>: each
  is a double, at least 0 and below 1.
\<close>

definition chars :: string where
  "chars = ''ABCDEFGHJKLMNPRSTUVWXYZ0123456789''"

function generateRandomVIN_loop :: "(nat \<Rightarrow> real) \<Rightarrow> nat \<Rightarrow> string \<Rightarrow> string" where
  "generateRandomVIN_loop random i vin =
     (if i < 17
      then generateRandomVIN_loop random (i + 1)
             (vin @ charAt chars \<lfloor>fmul (random i) (real (length chars))\<rfloor>)
      else vin)"
  by pat_completeness auto
termination
  by (relation "measure (\<lambda>(random, i, vin). 17 - i)") auto

declare generateRandomVIN_loop.simps [simp del]

definition generateRandomVIN :: "(nat \<Rightarrow> real) \<Rightarrow> string" where
  "generateRandomVIN random = generateRandomVIN_loop random 0 []"

definition example_random :: "nat \<Rightarrow> real" where
  "example_random i = (if even i then 1 / 2 else 6004799503160661 / 2 ^ 54)"

definition generateOrderNumber :: "int \<Rightarrow> int \<Rightarrow> real \<Rightarrow> string" where
  "generateOrderNumber tz now r =
     (let year = getFullYear tz now;
          random = padStart 5 CHR ''0'' (number_toString \<lfloor>fmul r 99999\<rfloor>)
      in ''RO-'' @ number_toString year @ ''-'' @ random)"

text \<open>The character class \<^verbatim>\<open>[A-HJ-NPR-Z0-9]\<close>, by character codes.\<close>

definition vin_legal :: "char \<Rightarrow> bool" where
  "vin_legal c =
     (let n = (of_char c :: nat)
      in (65 \<le> n \<and> n \<le> 72) \<or> (74 \<le> n \<and> n \<le> 78) \<or> n = 80 \<or> (82 \<le> n \<and> n \<le> 90)
         \<or> (48 \<le> n \<and> n \<le> 57))"

text \<open>The class \<^verbatim>\<open>\d\<close>, and the pattern \<^verbatim>\<open>RO-\d{4}-\d{5}\<close> on a whole string.\<close>

definition is_digit :: "char \<Rightarrow> bool" where
  "is_digit c = (c \<in> set ''0123456789'')"

definition matches_order_number_pattern :: "string \<Rightarrow> bool" where
  "matches_order_number_pattern s =
     (length s = 13 \<and> take 3 s = ''RO-'' \<and> list_all is_digit (take 4 (drop 3 s)) \<and>
      take 1 (drop 7 s) = ''-'' \<and> list_all is_digit (drop 8 s))"

section \<open>Traces of engine calls, and a page for closed instances\<close>

text \<open>A task that only appends actions satisfying \<open>Q\<close> to the trace.\<close>

definition only_adds :: "(action \<Rightarrow> bool) \<Rightarrow> ('d, 'a) task \<Rightarrow> bool" where
  "only_adds Q m \<longleftrightarrow> (\<forall>s. \<exists>acts. trace (snd (m s)) = trace s @ acts \<and> (\<forall>a \<in> set acts. Q a))"

text \<open>
  An action that writes, into a control of the form, the non-empty value that the
  payload supplies for it.
\<close>

definition supplied_write :: "(locator \<times> ('p \<Rightarrow> string option)) list \<Rightarrow> 'p \<Rightarrow> action \<Rightarrow> bool" where
  "supplied_write form d a =
     (\<exists>(field, supplied) \<in> set form. \<exists>text. supplied d = Some text \<and> text \<noteq> [] \<and>
        (a = Fill field text \<or> a = SelectOption field text))"

text \<open>
  A page for closed instances. In \<open>example_page\<close> a control is absent, or present
  with a visibility flag and a value; filling or selecting replaces the value of a
  visible control and times out otherwise.
\<close>

definition example_write :: "locator \<Rightarrow> string \<Rightarrow> (locator \<Rightarrow> (bool \<times> string) option)
    \<Rightarrow> (js_error + unit) \<times> (locator \<Rightarrow> (bool \<times> string) option)" where
  "example_write l text d =
     (case d l of
        Some (True, old) \<Rightarrow> (Inr (), d(l \<mapsto> (True, text)))
      | _ \<Rightarrow> (Inl (TimeoutError ''Timeout exceeded''), d))"

definition example_page :: "(locator \<Rightarrow> (bool \<times> string) option) engine" where
  "example_page =
     \<lparr>locator_click = (\<lambda>l d. (Inr (), d)),
      locator_fill = example_write,
      locator_selectOption = example_write,
      locator_textContent = (\<lambda>l d. (Inr (map_option snd (d l)), d)),
      locator_waitFor = (\<lambda>l st t d.
         (case d l of
            Some (True, v) \<Rightarrow> (if st = Visible then Inr () else Inl (TimeoutError ''Timeout exceeded''), d)
          | _ \<Rightarrow> (if st = Hidden then Inr () else Inl (TimeoutError ''Timeout exceeded''), d))),
      page_waitForTimeout = (\<lambda>ms d. (Inr (), d))\<rparr>"

definition example_controls :: "locator \<Rightarrow> (bool \<times> string) option" where
  "example_controls =
     [customerNameInput \<mapsto> (True, ''Old name''),
      vehicleVinInput \<mapsto> (True, ''1HGCM82633A123456''),
      statusDropdown \<mapsto> (False, ''Pending'')]"

section \<open>Properties of the response validation helpers\<close>

lemma sublist_status_message:
  "sublist (number_toString e) (status_message e a) \<and> sublist (number_toString a) (status_message e a)"
proof
  have "status_message e a = ''Expected status '' @ number_toString e @ ('', but got '' @ number_toString a)"
    by (simp add: status_message_def)
  then show "sublist (number_toString e) (status_message e a)"
    by (metis sublist_appendI)
next
  have "status_message e a = (''Expected status '' @ number_toString e @ '', but got '') @ number_toString a"
    by (simp add: status_message_def)
  then show "sublist (number_toString a) (status_message e a)"
    by (metis sublist_append_leftI)
qed

text \<open>
  Claim C4. For every response and expected status code, \<open>assertStatus\<close> returns normally
  when the status of the response equals the expected code; otherwise it throws an
  \<open>Error\<close> whose message is \<open>Expected status <expected>, but got <actual>\<close>, which
  contains the decimal rendering of both codes.
\<close>

theorem assertStatus_spec:
  "(response.status resp = expectedStatus \<longrightarrow> assertStatus resp expectedStatus = Inr ()) \<and>
   (response.status resp \<noteq> expectedStatus \<longrightarrow>
      assertStatus resp expectedStatus = Inl (Error (status_message expectedStatus (response.status resp))) \<and>
      sublist (number_toString expectedStatus) (status_message expectedStatus (response.status resp)) \<and>
      sublist (number_toString (response.status resp)) (status_message expectedStatus (response.status resp)))"
  using sublist_status_message [of expectedStatus "response.status resp"]
  by (simp add: assertStatus_def)

theorem assertStatus_spec_witness:
  "assertStatus \<lparr>response.status = 200, body = []\<rparr> 200 = Inr () \<and>
   assertStatus \<lparr>response.status = 404, body = []\<rparr> 200 = Inl (Error ''Expected status 200, but got 404'')"
  using assertStatus_spec [of "\<lparr>response.status = 200, body = []\<rparr>" 200]
        assertStatus_spec [of "\<lparr>response.status = 404, body = []\<rparr>" 200]
  by (simp add: status_message_def number_toString_def nat_toString.simps digit_char_def)








section \<open>Properties of the API client\<close>

lemma getContext_uninitialised: "apiContext c = None \<Longrightarrow> getContext c = Inl not_initialized"
  by (simp add: getContext_def)

text \<open>
  Claim C1. For every operation of \<open>DmsApiClient\<close> that issues an HTTP request, whatever
  its arguments: when the request context of the client is still unset (\<open>init\<close> has
  not run), the call throws the error "API context not initialized. Call init() before
  making requests." and the list of issued requests is unchanged.
\<close>

theorem invoke_before_init:
  "apiContext c = None \<Longrightarrow> invoke srv usp c call net = (Inl not_initialized, net)"
  by (cases call)
     (simp_all add: getContext_uninitialised getRepairOrders_def getRepairOrderById_def
        createRepairOrder_def updateRepairOrder_def deleteRepairOrder_def searchRepairOrders_def
        getAppointments_def getAppointmentById_def createAppointment_def updateAppointment_def
        cancelAppointment_def authenticate_def validateToken_def get_def post_def patch_def
        delete_def)

theorem invoke_before_init_witness:
  "apiContext (new_DmsApiClient ''https://api.example-dms.com/v1'' ''default-test-token'') = None \<and>
   invoke (\<lambda>context req. Inr \<lparr>response.status = 200, body = []\<rparr>) (\<lambda>filters. [])
     (new_DmsApiClient ''https://api.example-dms.com/v1'' ''default-test-token'')
     (GetRepairOrderById ''RO-2024-001'') []
   = (Inl (Error ''API context not initialized. Call init() before making requests.''), [])"
  using invoke_before_init
    [of "new_DmsApiClient ''https://api.example-dms.com/v1'' ''default-test-token''"
        "\<lambda>context req. Inr \<lparr>response.status = 200, body = []\<rparr>" "\<lambda>filters. []"
        "GetRepairOrderById ''RO-2024-001''" "[]"]
  by (simp add: new_DmsApiClient_def not_initialized_def)

lemma invoke_after_init_example:
  "invoke (\<lambda>context req. Inr \<lparr>response.status = 200, body = []\<rparr>) (\<lambda>filters. [])
     (init (new_DmsApiClient ''https://api.example-dms.com/v1'' ''default-test-token''))
     (GetRepairOrderById ''RO-2024-001'') []
   = (Inr \<lparr>response.status = 200, body = []\<rparr>,
      [(\<lparr>ctx_baseURL = ''https://api.example-dms.com/v1'',
         extraHTTPHeaders = [(''Authorization'', ''Bearer default-test-token''),
                             (''Content-Type'', ''application/json'')],
         ignoreHTTPSErrors = True\<rparr>,
        \<lparr>verb = GET, url = ''/repair-orders/RO-2024-001'', payload = None\<rparr>)])"
  by (simp add: getRepairOrderById_def getContext_def init_def new_DmsApiClient_def
        context_get_def send_def)

section \<open>Properties of the page objects\<close>

lemma only_adds_return: "only_adds Q (return x)"
  by (simp add: only_adds_def return_def)

lemma only_adds_engine_call: "Q a \<Longrightarrow> only_adds Q (engine_call a f)"
  by (simp add: only_adds_def engine_call_def split: prod.splits)

lemma only_adds_await:
  assumes m: "only_adds Q m" and f: "\<And>x. only_adds Q (f x)"
  shows "only_adds Q (await m f)"
  unfolding only_adds_def
proof
  fix s
  obtain r s' where ms: "m s = (r, s')" by (cases "m s")
  from m obtain acts where acts: "trace s' = trace s @ acts" "\<forall>a \<in> set acts. Q a"
    unfolding only_adds_def using ms by (metis snd_conv)
  show "\<exists>acts. trace (snd (await m f s)) = trace s @ acts \<and> (\<forall>a \<in> set acts. Q a)"
  proof (cases r)
    case (Inl e)
    with ms acts show ?thesis by (auto simp: await_def)
  next
    case (Inr x)
    from f [of x] obtain acts' where
      acts': "trace (snd (f x s')) = trace s' @ acts'" "\<forall>a \<in> set acts'. Q a"
      unfolding only_adds_def by blast
    have "trace (snd (await m f s)) = trace s @ (acts @ acts')"
      using ms Inr acts acts' by (simp add: await_def)
    moreover have "\<forall>a \<in> set (acts @ acts'). Q a"
      using acts acts' by auto
    ultimately show ?thesis by blast
  qed
qed

lemma only_adds_sequence: "(\<And>m. m \<in> set ms \<Longrightarrow> only_adds Q m) \<Longrightarrow> only_adds Q (sequence ms)"
  by (induction ms) (simp_all add: only_adds_return only_adds_await)

lemma only_adds_if_truthy:
  "(\<And>text. v = Some text \<Longrightarrow> text \<noteq> [] \<Longrightarrow> only_adds Q (f text)) \<Longrightarrow> only_adds Q (if_truthy v f)"
  by (cases v) (simp_all add: if_truthy_def only_adds_return)

lemma only_adds_issued: "only_adds Q m \<Longrightarrow> \<forall>a \<in> set (issued m s). Q a"
proof -
  assume "only_adds Q m"
  then obtain acts where "trace (snd (m s)) = trace s @ acts" "\<forall>a \<in> set acts. Q a"
    unfolding only_adds_def by blast
  then show ?thesis by (simp add: issued_def)
qed

lemma fillRepairOrderForm_only_adds:
  assumes "\<And>text. RepairOrderData.customerName d = Some text \<Longrightarrow> text \<noteq> [] \<Longrightarrow> Q (Fill customerNameInput text)"
    and "\<And>text. RepairOrderData.vehicleVin d = Some text \<Longrightarrow> text \<noteq> [] \<Longrightarrow> Q (Fill vehicleVinInput text)"
    and "\<And>text. RepairOrderData.vehicleMake d = Some text \<Longrightarrow> text \<noteq> [] \<Longrightarrow> Q (Fill vehicleMakeInput text)"
    and "\<And>text. RepairOrderData.vehicleModel d = Some text \<Longrightarrow> text \<noteq> [] \<Longrightarrow> Q (Fill vehicleModelInput text)"
    and "\<And>text. RepairOrderData.vehicleYear d = Some text \<Longrightarrow> text \<noteq> [] \<Longrightarrow> Q (Fill vehicleYearInput text)"
    and "\<And>text. RepairOrderData.description d = Some text \<Longrightarrow> text \<noteq> [] \<Longrightarrow> Q (Fill descriptionInput text)"
    and "\<And>text. RepairOrderData.estimatedCost d = Some text \<Longrightarrow> text \<noteq> [] \<Longrightarrow> Q (Fill estimatedCostInput text)"
    and "\<And>text. RepairOrderData.status d = Some text \<Longrightarrow> text \<noteq> [] \<Longrightarrow> Q (SelectOption statusDropdown text)"
  shows "only_adds Q (fillRepairOrderForm eng d)"
  unfolding fillRepairOrderForm_def
  apply (rule only_adds_sequence)
  using assms
  apply (auto intro!: only_adds_if_truthy only_adds_engine_call simp: fill_def selectDropdown_def)
  done

lemmas form_locator_defs =
  customerNameInput_def vehicleVinInput_def vehicleMakeInput_def vehicleModelInput_def
  vehicleYearInput_def descriptionInput_def estimatedCostInput_def statusDropdown_def
  phoneNumberInput_def emailInput_def serviceTypeDropdown_def preferredDateInput_def
  preferredTimeDropdown_def notesTextarea_def

lemma fillAppointmentForm_only_adds:
  assumes "\<And>text. AppointmentData.customerName d = Some text \<Longrightarrow> text \<noteq> [] \<Longrightarrow> Q (Fill customerNameInput text)"
    and "\<And>text. AppointmentData.phoneNumber d = Some text \<Longrightarrow> text \<noteq> [] \<Longrightarrow> Q (Fill phoneNumberInput text)"
    and "\<And>text. AppointmentData.email d = Some text \<Longrightarrow> text \<noteq> [] \<Longrightarrow> Q (Fill emailInput text)"
    and "\<And>text. AppointmentData.serviceType d = Some text \<Longrightarrow> text \<noteq> [] \<Longrightarrow> Q (SelectOption serviceTypeDropdown text)"
    and "\<And>text. AppointmentData.vehicleVin d = Some text \<Longrightarrow> text \<noteq> [] \<Longrightarrow> Q (Fill vehicleVinInput text)"
    and "\<And>text. AppointmentData.preferredDate d = Some text \<Longrightarrow> text \<noteq> [] \<Longrightarrow> Q (Fill preferredDateInput text)"
    and "\<And>text. AppointmentData.preferredTime d = Some text \<Longrightarrow> text \<noteq> [] \<Longrightarrow> Q (SelectOption preferredTimeDropdown text)"
    and "\<And>text. AppointmentData.notes d = Some text \<Longrightarrow> text \<noteq> [] \<Longrightarrow> Q (Fill notesTextarea text)"
  shows "only_adds Q (fillAppointmentForm eng d)"
  unfolding fillAppointmentForm_def
  apply (rule only_adds_sequence)
  using assms
  apply (auto intro!: only_adds_if_truthy only_adds_engine_call simp: fill_def selectDropdown_def)
  done

lemma fillRepairOrderForm_skips:
  assumes "(field, supplied) \<in> set repairOrderForm"
    and "supplied d = None \<or> supplied d = Some []"
  shows "only_adds (\<lambda>a. target a \<noteq> Some field) (fillRepairOrderForm eng d)"
  apply (rule fillRepairOrderForm_only_adds)
  using assms
  apply (auto simp: repairOrderForm_def form_locator_defs)
  done

lemma fillAppointmentForm_skips:
  assumes "(field, supplied) \<in> set appointmentForm"
    and "supplied d = None \<or> supplied d = Some []"
  shows "only_adds (\<lambda>a. target a \<noteq> Some field) (fillAppointmentForm eng d)"
  apply (rule fillAppointmentForm_only_adds)
  using assms
  apply (auto simp: appointmentForm_def form_locator_defs)
  done

lemma trace_issued: "only_adds Q m \<Longrightarrow> trace (snd (m s)) = trace s @ issued m s"
proof -
  assume "only_adds Q m"
  then obtain acts where "trace (snd (m s)) = trace s @ acts"
    unfolding only_adds_def by blast
  then show ?thesis by (simp add: issued_def)
qed

lemma fillRepairOrderForm_supplied:
  "only_adds (supplied_write repairOrderForm d) (fillRepairOrderForm eng d)"
  by (rule fillRepairOrderForm_only_adds) (simp_all add: supplied_write_def repairOrderForm_def)

lemma fillAppointmentForm_supplied:
  "only_adds (supplied_write appointmentForm d) (fillAppointmentForm eng d)"
  by (rule fillAppointmentForm_only_adds) (simp_all add: supplied_write_def appointmentForm_def)

text \<open>
  Claim C2. For every partial repair-order payload and every partial appointment
  payload, on any page and from any state: a control whose property is not supplied in
  the payload is the target of no engine call that \<open>fillRepairOrderForm\<close>
  (respectively \<open>fillAppointmentForm\<close>) issues, so it is neither filled nor cleared;
  every call issued fills or selects a control of the form with the value its property
  supplies; and the calls issued are all that is added to the trace.
\<close>

theorem fill_forms_leave_unsupplied_untouched:
  "(\<forall>(field, supplied) \<in> set repairOrderForm. supplied orderData = None \<longrightarrow>
      (\<forall>a \<in> set (issued (fillRepairOrderForm eng orderData) s). target a \<noteq> Some field)) \<and>
   (\<forall>a \<in> set (issued (fillRepairOrderForm eng orderData) s). supplied_write repairOrderForm orderData a) \<and>
   trace (snd (fillRepairOrderForm eng orderData s)) =
     trace s @ issued (fillRepairOrderForm eng orderData) s \<and>
   (\<forall>(field, supplied) \<in> set appointmentForm. supplied appointmentData = None \<longrightarrow>
      (\<forall>a \<in> set (issued (fillAppointmentForm eng appointmentData) s). target a \<noteq> Some field)) \<and>
   (\<forall>a \<in> set (issued (fillAppointmentForm eng appointmentData) s).
      supplied_write appointmentForm appointmentData a) \<and>
   trace (snd (fillAppointmentForm eng appointmentData s)) =
     trace s @ issued (fillAppointmentForm eng appointmentData) s"
proof (intro conjI)
  show "\<forall>(field, supplied) \<in> set repairOrderForm. supplied orderData = None \<longrightarrow>
      (\<forall>a \<in> set (issued (fillRepairOrderForm eng orderData) s). target a \<noteq> Some field)"
  proof
    fix entry assume e: "entry \<in> set repairOrderForm"
    obtain field supplied where entry: "entry = (field, supplied)" by (cases entry)
    have "supplied orderData = None \<Longrightarrow>
          \<forall>a \<in> set (issued (fillRepairOrderForm eng orderData) s). target a \<noteq> Some field"
      using e entry by (intro only_adds_issued fillRepairOrderForm_skips) auto
    with entry show "case entry of (field, supplied) \<Rightarrow> supplied orderData = None \<longrightarrow>
        (\<forall>a \<in> set (issued (fillRepairOrderForm eng orderData) s). target a \<noteq> Some field)"
      by simp
  qed
next
  show "\<forall>a \<in> set (issued (fillRepairOrderForm eng orderData) s). supplied_write repairOrderForm orderData a"
    by (rule only_adds_issued) (rule fillRepairOrderForm_supplied)
next
  show "trace (snd (fillRepairOrderForm eng orderData s)) =
     trace s @ issued (fillRepairOrderForm eng orderData) s"
    by (rule trace_issued) (rule fillRepairOrderForm_supplied)
next
  show "\<forall>(field, supplied) \<in> set appointmentForm. supplied appointmentData = None \<longrightarrow>
      (\<forall>a \<in> set (issued (fillAppointmentForm eng appointmentData) s). target a \<noteq> Some field)"
  proof
    fix entry assume e: "entry \<in> set appointmentForm"
    obtain field supplied where entry: "entry = (field, supplied)" by (cases entry)
    have "supplied appointmentData = None \<Longrightarrow>
          \<forall>a \<in> set (issued (fillAppointmentForm eng appointmentData) s). target a \<noteq> Some field"
      using e entry by (intro only_adds_issued fillAppointmentForm_skips) auto
    with entry show "case entry of (field, supplied) \<Rightarrow> supplied appointmentData = None \<longrightarrow>
        (\<forall>a \<in> set (issued (fillAppointmentForm eng appointmentData) s). target a \<noteq> Some field)"
      by simp
  qed
next
  show "\<forall>a \<in> set (issued (fillAppointmentForm eng appointmentData) s).
      supplied_write appointmentForm appointmentData a"
    by (rule only_adds_issued) (rule fillAppointmentForm_supplied)
next
  show "trace (snd (fillAppointmentForm eng appointmentData s)) =
     trace s @ issued (fillAppointmentForm eng appointmentData) s"
    by (rule trace_issued) (rule fillAppointmentForm_supplied)
qed

lemmas run_task_defs =
  if_truthy_def fill_def selectDropdown_def click_def wait_def getText_def
  engine_call_def await_def return_def issued_def

theorem fill_forms_leave_unsupplied_untouched_witness:
  "RepairOrderData.vehicleVin
     \<lparr>RepairOrderData.customerName = Some ''John Doe'', vehicleVin = None, vehicleMake = None,
      vehicleModel = None, vehicleYear = None, description = None, estimatedCost = None,
      status = None\<rparr> = None \<and>
   issued (fillRepairOrderForm example_page
     \<lparr>RepairOrderData.customerName = Some ''John Doe'', vehicleVin = None, vehicleMake = None,
      vehicleModel = None, vehicleYear = None, description = None, estimatedCost = None,
      status = None\<rparr>) \<lparr>dom = example_controls, trace = []\<rparr>
     = [Fill customerNameInput ''John Doe''] \<and>
   target (Fill customerNameInput ''John Doe'') \<noteq> Some vehicleVinInput \<and>
   issued (fillAppointmentForm example_page
     \<lparr>AppointmentData.customerName = None, phoneNumber = None, email = None, serviceType = None,
      vehicleVin = Some ''5YJSA1E26HF000001'', preferredDate = None, preferredTime = None,
      notes = None\<rparr>) \<lparr>dom = example_controls, trace = []\<rparr>
     = [Fill vehicleVinInput ''5YJSA1E26HF000001''] \<and>
   target (Fill vehicleVinInput ''5YJSA1E26HF000001'') \<noteq> Some customerNameInput"
  using fill_forms_leave_unsupplied_untouched
    [of "\<lparr>RepairOrderData.customerName = Some ''John Doe'', vehicleVin = None, vehicleMake = None,
      vehicleModel = None, vehicleYear = None, description = None, estimatedCost = None,
      status = None\<rparr>" example_page "\<lparr>dom = example_controls, trace = []\<rparr>"
      "\<lparr>AppointmentData.customerName = None, phoneNumber = None, email = None, serviceType = None,
      vehicleVin = Some ''5YJSA1E26HF000001'', preferredDate = None, preferredTime = None,
      notes = None\<rparr>"]
  by (simp add: fillRepairOrderForm_def fillAppointmentForm_def run_task_defs example_page_def
        example_write_def example_controls_def form_locator_defs)

lemma fill_form_example_values:
  "dom (snd (fillRepairOrderForm example_page
     \<lparr>RepairOrderData.customerName = Some ''John Doe'', vehicleVin = None, vehicleMake = None,
      vehicleModel = None, vehicleYear = None, description = None, estimatedCost = None,
      status = None\<rparr> \<lparr>dom = example_controls, trace = []\<rparr>)) vehicleVinInput
   = Some (True, ''1HGCM82633A123456'')"
  by (simp add: fillRepairOrderForm_def run_task_defs example_page_def
        example_write_def example_controls_def form_locator_defs)

lemma no_empty_write_simp [simp]:
  "(\<forall>l. a \<noteq> Fill l [] \<and> a \<noteq> SelectOption l []) \<longleftrightarrow>
   (case a of Fill l text \<Rightarrow> text \<noteq> [] | SelectOption l v \<Rightarrow> v \<noteq> [] | _ \<Rightarrow> True)"
  by (cases a) auto

text \<open>
  Claim C10. In \<open>fillRepairOrderForm\<close> and \<open>fillAppointmentForm\<close>, a property
  supplied as the empty string is skipped like one that is not supplied: its control is
  the target of no engine call. Whatever the payload, neither helper ever fills a control
  with the empty string or selects the empty option.
\<close>

theorem fill_forms_skip_empty_string:
  "(\<forall>(field, supplied) \<in> set repairOrderForm. supplied orderData = Some [] \<longrightarrow>
      (\<forall>a \<in> set (issued (fillRepairOrderForm eng orderData) s). target a \<noteq> Some field)) \<and>
   (\<forall>a \<in> set (issued (fillRepairOrderForm eng orderData) s).
      \<forall>l. a \<noteq> Fill l [] \<and> a \<noteq> SelectOption l []) \<and>
   (\<forall>(field, supplied) \<in> set appointmentForm. supplied appointmentData = Some [] \<longrightarrow>
      (\<forall>a \<in> set (issued (fillAppointmentForm eng appointmentData) s). target a \<noteq> Some field)) \<and>
   (\<forall>a \<in> set (issued (fillAppointmentForm eng appointmentData) s).
      \<forall>l. a \<noteq> Fill l [] \<and> a \<noteq> SelectOption l [])"
proof (intro conjI)
  show "\<forall>(field, supplied) \<in> set repairOrderForm. supplied orderData = Some [] \<longrightarrow>
      (\<forall>a \<in> set (issued (fillRepairOrderForm eng orderData) s). target a \<noteq> Some field)"
  proof
    fix entry assume e: "entry \<in> set repairOrderForm"
    obtain field supplied where entry: "entry = (field, supplied)" by (cases entry)
    have "supplied orderData = Some [] \<Longrightarrow>
          \<forall>a \<in> set (issued (fillRepairOrderForm eng orderData) s). target a \<noteq> Some field"
      using e entry by (intro only_adds_issued fillRepairOrderForm_skips) auto
    with entry show "case entry of (field, supplied) \<Rightarrow> supplied orderData = Some [] \<longrightarrow>
        (\<forall>a \<in> set (issued (fillRepairOrderForm eng orderData) s). target a \<noteq> Some field)"
      by simp
  qed
next
  have "only_adds (\<lambda>a. \<forall>l. a \<noteq> Fill l [] \<and> a \<noteq> SelectOption l []) (fillRepairOrderForm eng orderData)"
    by (rule fillRepairOrderForm_only_adds) simp_all
  then show "\<forall>a \<in> set (issued (fillRepairOrderForm eng orderData) s).
      \<forall>l. a \<noteq> Fill l [] \<and> a \<noteq> SelectOption l []"
    by (rule only_adds_issued)
next
  show "\<forall>(field, supplied) \<in> set appointmentForm. supplied appointmentData = Some [] \<longrightarrow>
      (\<forall>a \<in> set (issued (fillAppointmentForm eng appointmentData) s). target a \<noteq> Some field)"
  proof
    fix entry assume e: "entry \<in> set appointmentForm"
    obtain field supplied where entry: "entry = (field, supplied)" by (cases entry)
    have "supplied appointmentData = Some [] \<Longrightarrow>
          \<forall>a \<in> set (issued (fillAppointmentForm eng appointmentData) s). target a \<noteq> Some field"
      using e entry by (intro only_adds_issued fillAppointmentForm_skips) auto
    with entry show "case entry of (field, supplied) \<Rightarrow> supplied appointmentData = Some [] \<longrightarrow>
        (\<forall>a \<in> set (issued (fillAppointmentForm eng appointmentData) s). target a \<noteq> Some field)"
      by simp
  qed
next
  have "only_adds (\<lambda>a. \<forall>l. a \<noteq> Fill l [] \<and> a \<noteq> SelectOption l []) (fillAppointmentForm eng appointmentData)"
    by (rule fillAppointmentForm_only_adds) simp_all
  then show "\<forall>a \<in> set (issued (fillAppointmentForm eng appointmentData) s).
      \<forall>l. a \<noteq> Fill l [] \<and> a \<noteq> SelectOption l []"
    by (rule only_adds_issued)
qed

theorem fill_forms_skip_empty_string_witness:
  "issued (fillRepairOrderForm example_page
     \<lparr>RepairOrderData.customerName = Some [], vehicleVin = Some ''5YJSA1E26HF000001'',
      vehicleMake = None, vehicleModel = None, vehicleYear = None, description = None,
      estimatedCost = None, status = None\<rparr>) \<lparr>dom = example_controls, trace = []\<rparr>
     = [Fill vehicleVinInput ''5YJSA1E26HF000001''] \<and>
   dom (snd (fillRepairOrderForm example_page
     \<lparr>RepairOrderData.customerName = Some [], vehicleVin = Some ''5YJSA1E26HF000001'',
      vehicleMake = None, vehicleModel = None, vehicleYear = None, description = None,
      estimatedCost = None, status = None\<rparr> \<lparr>dom = example_controls, trace = []\<rparr>))
     customerNameInput = Some (True, ''Old name'') \<and>
   issued (fillAppointmentForm example_page
     \<lparr>AppointmentData.customerName = Some [], phoneNumber = None, email = None,
      serviceType = None, vehicleVin = None, preferredDate = None, preferredTime = None,
      notes = Some []\<rparr>) \<lparr>dom = example_controls, trace = []\<rparr> = []"
  using fill_forms_skip_empty_string
    [of "\<lparr>RepairOrderData.customerName = Some [], vehicleVin = Some ''5YJSA1E26HF000001'',
      vehicleMake = None, vehicleModel = None, vehicleYear = None, description = None,
      estimatedCost = None, status = None\<rparr>" example_page "\<lparr>dom = example_controls, trace = []\<rparr>"
      "\<lparr>AppointmentData.customerName = Some [], phoneNumber = None, email = None,
      serviceType = None, vehicleVin = None, preferredDate = None, preferredTime = None,
      notes = Some []\<rparr>"]
  by (simp add: fillRepairOrderForm_def fillAppointmentForm_def run_task_defs example_page_def
        example_write_def example_controls_def form_locator_defs)

text \<open>
  Claim C9. For every locator, on any page and from any state, \<open>isVisible\<close> returns a
  boolean and never throws: \<open>True\<close> when the engine's wait for visibility, with its
  timeout of 5000 ms, succeeds, and \<open>False\<close> when that wait throws, whatever the
  reason (the element is absent, or present and not visible in time). The wait is the
  only engine call it makes.
\<close>

theorem isVisible_never_throws:
  "(\<forall>e. fst (isVisible eng l s) \<noteq> Inl e) \<and>
   (fst (locator_waitFor eng l Visible (Some 5000) (dom s)) = Inr () \<longrightarrow>
      fst (isVisible eng l s) = Inr True) \<and>
   (\<forall>e. fst (locator_waitFor eng l Visible (Some 5000) (dom s)) = Inl e \<longrightarrow>
      fst (isVisible eng l s) = Inr False) \<and>
   issued (isVisible eng l) s = [WaitFor l Visible (Some 5000)]"
  by (auto simp: isVisible_def engine_call_def issued_def split: prod.splits sum.splits)

theorem isVisible_never_throws_witness:
  "fst (isVisible example_page customerNameInput \<lparr>dom = example_controls, trace = []\<rparr>) = Inr True \<and>
   fst (isVisible example_page statusDropdown \<lparr>dom = example_controls, trace = []\<rparr>) = Inr False \<and>
   fst (isVisible example_page notesTextarea \<lparr>dom = example_controls, trace = []\<rparr>) = Inr False"
  using isVisible_never_throws [of example_page customerNameInput "\<lparr>dom = example_controls, trace = []\<rparr>"]
        isVisible_never_throws [of example_page statusDropdown "\<lparr>dom = example_controls, trace = []\<rparr>"]
        isVisible_never_throws [of example_page notesTextarea "\<lparr>dom = example_controls, trace = []\<rparr>"]
  by (simp add: isVisible_def engine_call_def example_page_def example_controls_def form_locator_defs)

section \<open>Properties of the test data helpers\<close>

lemma digit_char_is_digit: "is_digit (digit_char d)"
proof -
  have "d mod 10 < length ''0123456789''" by simp
  then have "''0123456789'' ! (d mod 10) \<in> set ''0123456789''" by (rule nth_mem)
  then show ?thesis by (simp only: is_digit_def digit_char_def)
qed

lemma nat_toString_digits: "list_all is_digit (nat_toString n)"
proof (induction n rule: nat_toString.induct)
  case (1 n)
  show ?case
  proof (cases "n < 10")
    case True
    then show ?thesis by (simp add: nat_toString.simps [of n] digit_char_is_digit)
  next
    case False
    with 1 show ?thesis by (simp add: nat_toString.simps [of n] digit_char_is_digit)
  qed
qed

lemma length_nat_toString_le: "n < 10 ^ k \<Longrightarrow> 0 < k \<Longrightarrow> length (nat_toString n) \<le> k"
proof (induction k arbitrary: n)
  case 0
  then show ?case by simp
next
  case (Suc k)
  show ?case
  proof (cases "n < 10")
    case True
    then show ?thesis by (simp add: nat_toString.simps [of n])
  next
    case False
    have "n div 10 < 10 ^ k" using Suc.prems(1) by (simp add: less_mult_imp_div_less mult.commute)
    moreover have "0 < k"
    proof (rule ccontr)
      assume "\<not> 0 < k"
      with Suc.prems(1) False show False by simp
    qed
    ultimately have "length (nat_toString (n div 10)) \<le> k" by (rule Suc.IH)
    with False show ?thesis by (simp add: nat_toString.simps [of n])
  qed
qed

lemma length_nat_toString_gt: "10 ^ k \<le> n \<Longrightarrow> k < length (nat_toString n)"
proof (induction k arbitrary: n)
  case 0
  show ?case by (cases "n < 10") (simp_all add: nat_toString.simps [of n])
next
  case (Suc k)
  have big: "\<not> n < 10"
  proof
    assume "n < 10"
    moreover have "(10::nat) \<le> 10 ^ Suc k" by simp
    ultimately show False using Suc.prems by linarith
  qed
  have "10 ^ k \<le> n div 10" using Suc.prems by (simp add: less_eq_div_iff_mult_less_eq mult.commute)
  then have "k < length (nat_toString (n div 10))" by (rule Suc.IH)
  with big show ?case by (simp add: nat_toString.simps [of n])
qed

lemma length_four_digit_year:
  assumes "1000 \<le> (y::int)" and "y \<le> 9999"
  shows "length (number_toString y) = 4 \<and> list_all is_digit (number_toString y)"
proof -
  have ns: "number_toString y = nat_toString (nat y)" using assms by (simp add: number_toString_def)
  have "nat y < 10 ^ 4" using assms by simp
  then have "length (nat_toString (nat y)) \<le> 4" by (rule length_nat_toString_le) simp
  moreover have "10 ^ 3 \<le> nat y" using assms by simp
  then have "3 < length (nat_toString (nat y))" by (rule length_nat_toString_gt)
  ultimately show ?thesis using ns by (simp add: nat_toString_digits)
qed

lemma real_pow2_le: "(2::int) ^ k \<le> n \<Longrightarrow> (2::real) ^ k \<le> real_of_int n"
  by (metis of_int_le_iff of_int_numeral of_int_power)

lemma real_le_pow2: "n \<le> (2::int) ^ k \<Longrightarrow> real_of_int n \<le> (2::real) ^ k"
  by (metis of_int_le_iff of_int_numeral of_int_power)

lemma pow2_neg: "0 \<le> b \<Longrightarrow> 1 / 2 ^ nat b = (2::real) powi (- b)"
  by (simp add: power_int_minus_divide power_int_def power_one_over)

lemma exponent_upper:
  assumes "0 < x"
  shows "x < 2 powi (exponent x + 1)"
proof (cases "1 \<le> x")
  case True
  then have n: "0 < \<lfloor>x\<rfloor>" by simp
  from bitlen_bounds [OF n] have "\<lfloor>x\<rfloor> < 2 ^ nat (bitlen \<lfloor>x\<rfloor>)" by simp
  then have "\<lfloor>x\<rfloor> + 1 \<le> 2 ^ nat (bitlen \<lfloor>x\<rfloor>)" by simp
  then have "real_of_int (\<lfloor>x\<rfloor> + 1) \<le> (2::real) ^ nat (bitlen \<lfloor>x\<rfloor>)"
    by (rule real_le_pow2)
  then have "x < 2 ^ nat (bitlen \<lfloor>x\<rfloor>)"
    using floor_correct [of x] by linarith
  moreover have b: "0 \<le> bitlen \<lfloor>x\<rfloor>" by (rule bitlen_nonneg)
  ultimately have "x < 2 powi (bitlen \<lfloor>x\<rfloor>)" by (simp add: power_int_def)
  moreover have "bitlen \<lfloor>x\<rfloor> \<le> exponent x + 1"
    using True assms by (simp add: exponent_def)
  then have "(2::real) powi (bitlen \<lfloor>x\<rfloor>) \<le> 2 powi (exponent x + 1)"
    by (rule power_int_increasing) simp
  ultimately show ?thesis by simp
next
  case False
  define n where "n = \<lceil>1 / x\<rceil> - 1"
  define b where "b = bitlen n"
  from False assms have inv: "1 < 1 / x" by simp
  then have "1 < \<lceil>1 / x\<rceil>" by (simp add: less_ceiling_iff)
  then have n: "0 < n" by (simp add: n_def)
  have nlt: "real_of_int n < 1 / x"
    unfolding n_def using ceiling_correct [of "1 / x"] by simp
  from bitlen_bounds [OF n] have "2 ^ nat (b - 1) \<le> n" by (simp add: b_def)
  then have "(2::real) ^ nat (b - 1) \<le> real_of_int n" by (rule real_pow2_le)
  with nlt have lt: "2 ^ nat (b - 1) < 1 / x" by linarith
  have b1: "1 \<le> b"
  proof -
    have "bitlen n \<noteq> 0" using n by (simp add: bitlen_eq_zero_iff)
    with bitlen_nonneg [of n] show ?thesis by (simp add: b_def)
  qed
  from lt assms have "x * 2 ^ nat (b - 1) < 1" by (simp add: field_simps)
  then have "x < 1 / 2 ^ nat (b - 1)" by (simp add: field_simps)
  also have "1 / 2 ^ nat (b - 1) = (2::real) powi (- (b - 1))"
    using b1 by (intro pow2_neg) simp
  finally have x: "x < 2 powi (- b + 1)" by simp
  have "- b \<le> exponent x"
    using False assms by (simp add: exponent_def n_def b_def)
  then have "(2::real) powi (- b + 1) \<le> 2 powi (exponent x + 1)"
    by (intro power_int_increasing) simp_all
  with x show ?thesis by simp
qed

lemma exponent_lower:
  assumes "0 < x"
  shows "2 powi exponent x \<le> x \<or> exponent x = - 1022"
proof (cases "1 \<le> x")
  case True
  then have n: "0 < \<lfloor>x\<rfloor>" by simp
  from bitlen_bounds [OF n] have "2 ^ nat (bitlen \<lfloor>x\<rfloor> - 1) \<le> \<lfloor>x\<rfloor>" by simp
  then have "(2::real) ^ nat (bitlen \<lfloor>x\<rfloor> - 1) \<le> real_of_int \<lfloor>x\<rfloor>"
    by (rule real_pow2_le)
  then have le: "2 ^ nat (bitlen \<lfloor>x\<rfloor> - 1) \<le> x"
    using of_int_floor_le [of x] by linarith
  have b1: "1 \<le> bitlen \<lfloor>x\<rfloor>"
  proof -
    have "bitlen \<lfloor>x\<rfloor> \<noteq> 0" using n by (simp add: bitlen_eq_zero_iff)
    with bitlen_nonneg [of "\<lfloor>x\<rfloor>"] show ?thesis by simp
  qed
  then have e: "exponent x = bitlen \<lfloor>x\<rfloor> - 1"
    using True assms by (simp add: exponent_def)
  from le b1 have "2 powi exponent x \<le> x" by (simp add: e power_int_def)
  then show ?thesis ..
next
  case False
  define n where "n = \<lceil>1 / x\<rceil> - 1"
  define b where "b = bitlen n"
  from False assms have inv: "1 < 1 / x" by simp
  then have "1 < \<lceil>1 / x\<rceil>" by (simp add: less_ceiling_iff)
  then have n: "0 < n" by (simp add: n_def)
  have e: "exponent x = max (- 1022) (- b)"
    using False assms by (simp add: exponent_def n_def b_def)
  show ?thesis
  proof (cases "- 1022 \<le> - b")
    case False
    with e show ?thesis by simp
  next
    case True
    with e have eb: "exponent x = - b" by simp
    have "1 / x \<le> real_of_int (n + 1)"
      unfolding n_def using ceiling_correct [of "1 / x"] by simp
    moreover from bitlen_bounds [OF n] have "n + 1 \<le> 2 ^ nat b" by (simp add: b_def)
    then have "real_of_int (n + 1) \<le> (2::real) ^ nat b" by (rule real_le_pow2)
    ultimately have "1 / x \<le> 2 ^ nat b" by linarith
    with assms have "1 \<le> x * 2 ^ nat b" by (simp add: field_simps)
    then have "1 / 2 ^ nat b \<le> x" by (simp add: field_simps)
    moreover have "0 \<le> b" unfolding b_def by (rule bitlen_nonneg)
    then have "1 / 2 ^ nat b = (2::real) powi (- b)"
      by (rule pow2_neg)
    ultimately show ?thesis by (simp add: eb)
  qed
qed

lemma exponent_eq:
  assumes lo: "2 powi k \<le> x" and hi: "x < 2 powi (k + 1)" and k: "- 1022 \<le> k"
  shows "exponent x = k"
proof -
  have "0 < (2::real) powi k" by simp
  with lo have x: "0 < x" by linarith
  have "(2::real) powi k < 2 powi (exponent x + 1)"
    using lo exponent_upper [OF x] by linarith
  then have "k < exponent x + 1"
    by (metis not_le power_int_increasing one_le_numeral not_less)
  moreover have "exponent x \<le> k"
  proof (rule disjE [OF exponent_lower [OF x]])
    assume "2 powi exponent x \<le> x"
    with hi have "(2::real) powi exponent x < 2 powi (k + 1)" by linarith
    then have "exponent x < k + 1"
      by (metis not_le power_int_increasing one_le_numeral not_less)
    then show ?thesis by simp
  next
    assume "exponent x = - 1022"
    with k show ?thesis by simp
  qed
  ultimately show ?thesis by simp
qed

lemma ulp_pos: "0 < ulp x"
  by (simp add: ulp_def)

lemma round_half_even_le: "t \<le> of_int N \<Longrightarrow> round_half_even t \<le> N"
  unfolding round_half_even_def Let_def by (auto; linarith)

lemma round_half_even_below_half: "t < of_int N - 1 / 2 \<Longrightarrow> round_half_even t \<le> N - 1"
  unfolding round_half_even_def Let_def by (auto; linarith)

lemma round_half_even_nonneg: "0 \<le> t \<Longrightarrow> 0 \<le> round_half_even t"
  unfolding round_half_even_def Let_def by (auto; linarith)

lemma round_double_nonneg: "0 \<le> x \<Longrightarrow> 0 \<le> round_double x"
  unfolding round_double_def
  by (intro mult_nonneg_nonneg) (simp_all add: round_half_even_nonneg ulp_pos less_imp_le)


lemma exponent_below_one:
  assumes "0 < x" and "x < 1"
  shows "exponent x \<le> - 1"
proof (rule ccontr)
  assume "\<not> exponent x \<le> - 1"
  then have e: "0 \<le> exponent x" by simp
  then have "exponent x \<noteq> - 1022" by simp
  with exponent_lower [OF assms(1)] have "2 powi exponent x \<le> x" by simp
  moreover have "1 \<le> (2::real) powi exponent x" using e by simp
  ultimately show False using assms(2) by linarith
qed

lemma double_below_one:
  assumes d: "is_double r" and r0: "0 \<le> r" and r1: "r < 1"
  shows "r \<le> 1 - 1 / 2 ^ 53"
proof (cases "r = 0")
  case True
  then show ?thesis by simp
next
  case False
  with r0 have pos: "0 < r" by simp
  have e: "exponent r \<le> - 1" using pos r1 by (rule exponent_below_one)
  show ?thesis
  proof (cases "exponent r = - 1")
    case False
    with e have "exponent r + 1 \<le> - 1" by simp
    then have "(2::real) powi (exponent r + 1) \<le> 2 powi (- 1)"
      by (rule power_int_increasing) simp
    with exponent_upper [OF pos] have "r < 1 / 2" by simp
    then show ?thesis by simp
  next
    case True
    then have u: "ulp r = 1 / 2 ^ 53" by (simp add: ulp_def power_int_minus_divide)
    define K where "K = round_half_even (r / ulp r)"
    from d have r: "r = real_of_int K / 2 ^ 53"
      by (simp add: is_double_def round_double_def K_def u)
    with r1 have "real_of_int K < 2 ^ 53" by (simp add: field_simps)
    then have "K < 2 ^ 53" by (metis of_int_less_iff of_int_numeral of_int_power)
    then have "K + 1 \<le> 2 ^ 53" by simp
    then have "real_of_int (K + 1) \<le> 2 ^ 53" by (rule real_le_pow2)
    then have "real_of_int K \<le> 2 ^ 53 - 1" by simp
    then have "real_of_int K / 2 ^ 53 \<le> (2 ^ 53 - 1) / 2 ^ 53"
      by (rule divide_right_mono) simp
    with r show ?thesis by (simp add: field_simps)
  qed
qed

lemma round_double_below_pow2:
  fixes k :: nat
  assumes x0: "0 \<le> x" and xk: "x < 2 ^ k"
  shows "round_double x \<le> 2 ^ k"
proof (cases "x = 0")
  case True
  then show ?thesis by (simp add: round_double_def round_half_even_def)
next
  case False
  with x0 have pos: "0 < x" by simp
  define e where "e = exponent x"
  have ek: "e \<le> int k"
  proof (rule disjE [OF exponent_lower [OF pos]])
    assume "2 powi exponent x \<le> x"
    with xk have "(2::real) powi e < 2 powi (int k)" by (simp add: e_def)
    then have "e < int k"
      by (metis not_le power_int_increasing one_le_numeral not_less)
    then show ?thesis by simp
  next
    assume "exponent x = - 1022"
    then show ?thesis by (simp add: e_def)
  qed
  define N :: int where "N = 2 ^ nat (int k - e + 52)"
  have Nu: "real_of_int N * ulp x = 2 ^ k"
  proof -
    have "real_of_int N = 2 powi (int k - e + 52)"
      using ek by (simp add: N_def power_int_def)
    then have "real_of_int N * ulp x = 2 powi (int k - e + 52) * 2 powi (e - 52)"
      by (simp add: ulp_def e_def)
    also have "\<dots> = 2 powi ((int k - e + 52) + (e - 52))"
      by (rule power_int_add [symmetric]) simp
    also have "\<dots> = 2 ^ k" by simp
    finally show ?thesis .
  qed
  have "x / ulp x \<le> real_of_int N"
    using xk Nu ulp_pos [of x] by (simp add: field_simps)
  then have "round_half_even (x / ulp x) \<le> N" by (rule round_half_even_le)
  then have "real_of_int (round_half_even (x / ulp x)) \<le> real_of_int N" by simp
  then have "real_of_int (round_half_even (x / ulp x)) * ulp x \<le> real_of_int N * ulp x"
    by (rule mult_right_mono) (simp add: ulp_pos less_imp_le)
  then show ?thesis by (simp add: round_double_def Nu)
qed

lemma fmul_const_bound:
  fixes n k :: nat
  assumes d: "is_double r" and r0: "0 \<le> r" and r1: "r < 1"
    and lo: "2 ^ k < n" and hi: "n < 2 ^ (k + 1)" and k52: "k \<le> 52"
  shows "0 \<le> fmul r (real n) \<and> fmul r (real n) < real n"
proof
  show "0 \<le> fmul r (real n)"
    unfolding fmul_def using r0 by (intro round_double_nonneg mult_nonneg_nonneg) simp_all
next
  define x where "x = r * real n"
  define u :: real where "u = 2 ^ k / 2 ^ 52"
  have rlo: "(2::real) ^ k < real n" using lo by (metis of_nat_less_iff of_nat_numeral of_nat_power)
  have rhi: "real n < 2 ^ (k + 1)" using hi by (metis of_nat_less_iff of_nat_numeral of_nat_power)
  have upos: "0 < u" by (simp add: u_def)
  have x0: "0 \<le> x" using r0 by (simp add: x_def)
  have "r \<le> 1 - 1 / 2 ^ 53" using d r0 r1 by (rule double_below_one)
  then have "r * real n \<le> (1 - 1 / 2 ^ 53) * real n"
    by (rule mult_right_mono) simp
  then have xn: "x \<le> real n - real n / 2 ^ 53" by (simp add: x_def algebra_simps)
  have "u / 2 = 2 ^ k / 2 ^ 53" by (simp add: u_def)
  also have "\<dots> < real n / 2 ^ 53" using rlo by (simp add: divide_strict_right_mono)
  finally have xu: "x < real n - u / 2" using xn by linarith
  have "round_double x < real n"
  proof (cases "x < 2 ^ k")
    case True
    with x0 have "round_double x \<le> 2 ^ k" by (rule round_double_below_pow2)
    with rlo show ?thesis by linarith
  next
    case False
    then have "2 powi (int k) \<le> x" by simp
    moreover have "x < 2 powi (int k + 1)"
    proof -
      have "x < real n" using xu upos by linarith
      with rhi have "x < 2 ^ (k + 1)" by linarith
      moreover have "(2::real) powi (int k + 1) = 2 ^ (k + 1)"
        by (simp add: power_int_add)
      ultimately show ?thesis by simp
    qed
    ultimately have e: "exponent x = int k" by (rule exponent_eq) simp
    have ux: "ulp x = u"
    proof -
      have "ulp x = 2 powi (int k - 52)" by (simp add: ulp_def e)
      also have "\<dots> = 2 powi (int k) / 2 powi 52" by (rule power_int_diff) simp
      finally show ?thesis by (simp add: u_def)
    qed
    define N :: int where "N = int n * 2 ^ (52 - k)"
    have Nu: "real_of_int N * u = real n"
    proof -
      have "(2::real) ^ (52 - k) * 2 ^ k = 2 ^ 52"
        using k52 by (simp add: power_add [symmetric])
      then have "(2::real) ^ (52 - k) * (2 ^ k / 2 ^ 52) = 1" by (simp add: field_simps)
      then show ?thesis by (simp add: N_def u_def algebra_simps)
    qed
    have "x / u < real_of_int N - 1 / 2"
    proof -
      have "x < real_of_int N * u - u / 2" using xu Nu by simp
      also have "\<dots> = (real_of_int N - 1 / 2) * u" by (simp add: algebra_simps)
      finally show ?thesis using upos by (simp add: field_simps)
    qed
    then have "round_half_even (x / u) \<le> N - 1" by (rule round_half_even_below_half)
    then have "real_of_int (round_half_even (x / u)) \<le> real_of_int N - 1" by linarith
    then have "real_of_int (round_half_even (x / u)) * u \<le> (real_of_int N - 1) * u"
      by (rule mult_right_mono) (simp add: upos less_imp_le)
    also have "\<dots> = real n - u" using Nu by (simp add: algebra_simps)
    finally have "round_double x \<le> real n - u" by (simp add: round_double_def ux)
    with upos show ?thesis by linarith
  qed
  then show "fmul r (real n) < real n" by (simp add: fmul_def x_def)
qed

lemma floor_fmul_const:
  fixes n k :: nat
  assumes "is_double r" and "0 \<le> r" and "r < 1"
    and "2 ^ k < n" and "n < 2 ^ (k + 1)" and "k \<le> 52"
  shows "0 \<le> \<lfloor>fmul r (real n)\<rfloor> \<and> \<lfloor>fmul r (real n)\<rfloor> < int n"
proof -
  from fmul_const_bound [OF assms]
  have b: "0 \<le> fmul r (real n)" "fmul r (real n) < real n" by simp_all
  from b(1) have "0 \<le> \<lfloor>fmul r (real n)\<rfloor>" by simp
  moreover from b(2) have "fmul r (real n) < real_of_int (int n)" by simp
  then have "\<lfloor>fmul r (real n)\<rfloor> < int n" by (simp only: floor_less_iff)
  ultimately show ?thesis by simp
qed

lemma random_suffix:
  assumes "is_double r" and "0 \<le> r" and "r < 1"
  shows "length (padStart 5 CHR ''0'' (number_toString \<lfloor>fmul r 99999\<rfloor>)) = 5 \<and>
         list_all is_digit (padStart 5 CHR ''0'' (number_toString \<lfloor>fmul r 99999\<rfloor>))"
proof -
  have "0 \<le> \<lfloor>fmul r (real (99999::nat))\<rfloor> \<and> \<lfloor>fmul r (real (99999::nat))\<rfloor> < int 99999"
    using assms by (rule floor_fmul_const [where k = 16]) simp_all
  then have lo: "0 \<le> \<lfloor>fmul r 99999\<rfloor>" and hi: "\<lfloor>fmul r 99999\<rfloor> < 99999" by simp_all
  have ns: "number_toString \<lfloor>fmul r 99999\<rfloor> = nat_toString (nat \<lfloor>fmul r 99999\<rfloor>)"
    using lo by (simp add: number_toString_def)
  have "nat \<lfloor>fmul r 99999\<rfloor> < 100000" using lo hi by linarith
  then have "nat \<lfloor>fmul r 99999\<rfloor> < 10 ^ 5" by simp
  then have len: "length (nat_toString (nat \<lfloor>fmul r 99999\<rfloor>)) \<le> 5"
    by (rule length_nat_toString_le) simp
  have zero: "is_digit CHR ''0''" by (simp add: is_digit_def)
  show ?thesis
    using len zero nat_toString_digits [of "nat \<lfloor>fmul r 99999\<rfloor>"]
    by (auto simp: ns padStart_def list_all_iff)
qed

text \<open>
  Claim C8. For every double that \<^verbatim>\<open>Math.random()\<close> can return, the string returned
  by \<open>generateOrderNumber\<close> is the prefix \<open>RO-\<close>, the current local year in decimal,
  a hyphen, and a suffix of exactly five digits: the number
  \<^verbatim>\<open>Math.floor(Math.random() * 99999)\<close>, computed in double arithmetic, in decimal
  and padded with zeros on the left. When the current year has four digits (1000 to
  9999), as the claim has it, the whole string matches \<^verbatim>\<open>RO-\d{4}-\d{5}\<close>.
\<close>

theorem generateOrderNumber_pattern:
  assumes "is_double r" and "0 \<le> r" and "r < 1"
  shows "generateOrderNumber tz now r =
           ''RO-'' @ number_toString (getFullYear tz now) @ ''-'' @
           padStart 5 CHR ''0'' (number_toString \<lfloor>fmul r 99999\<rfloor>) \<and>
         length (padStart 5 CHR ''0'' (number_toString \<lfloor>fmul r 99999\<rfloor>)) = 5 \<and>
         list_all is_digit (padStart 5 CHR ''0'' (number_toString \<lfloor>fmul r 99999\<rfloor>)) \<and>
         (1000 \<le> getFullYear tz now \<and> getFullYear tz now \<le> 9999 \<longrightarrow>
            matches_order_number_pattern (generateOrderNumber tz now r) \<and>
            take 4 (drop 3 (generateOrderNumber tz now r)) = number_toString (getFullYear tz now) \<and>
            drop 8 (generateOrderNumber tz now r) =
              padStart 5 CHR ''0'' (number_toString \<lfloor>fmul r 99999\<rfloor>))"
proof -
  define y where "y = number_toString (getFullYear tz now)"
  define n where "n = padStart 5 CHR ''0'' (number_toString \<lfloor>fmul r 99999\<rfloor>)"
  have n: "length n = 5" "list_all is_digit n"
    using random_suffix [OF assms] by (simp_all add: n_def)
  have g: "generateOrderNumber tz now r = ''RO-'' @ y @ ''-'' @ n"
    by (simp add: generateOrderNumber_def y_def n_def)
  have "matches_order_number_pattern (''RO-'' @ y @ ''-'' @ n) \<and>
        take 4 (drop 3 (''RO-'' @ y @ ''-'' @ n)) = y \<and> drop 8 (''RO-'' @ y @ ''-'' @ n) = n"
    if "1000 \<le> getFullYear tz now" and "getFullYear tz now \<le> 9999"
  proof -
    have y: "length y = 4" "list_all is_digit y"
      using length_four_digit_year [OF that] by (simp_all add: y_def)
    show ?thesis unfolding matches_order_number_pattern_def using y n by simp
  qed
  then show ?thesis
    unfolding g y_def [symmetric] n_def [symmetric] using n by simp
qed

theorem generateOrderNumber_pattern_witness:
  "is_double (2951508566879197 / 2 ^ 68) \<and>
   getFullYear 0 1704495600000 = 2024 \<and>
   generateOrderNumber 0 1704495600000 (2951508566879197 / 2 ^ 68) = ''RO-2024-00001'' \<and>
   matches_order_number_pattern ''RO-2024-00001''"
proof -
  have d: "is_double (2951508566879197 / 2 ^ 68)" by code_simp
  have y: "getFullYear 0 1704495600000 = 2024" by code_simp
  have g: "generateOrderNumber 0 1704495600000 (2951508566879197 / 2 ^ 68) = ''RO-2024-00001''"
    by code_simp
  have r0: "(0::real) \<le> 2951508566879197 / 2 ^ 68" by simp
  have r1: "(2951508566879197::real) / 2 ^ 68 < 1" by simp
  have yy: "1000 \<le> getFullYear 0 1704495600000 \<and> getFullYear 0 1704495600000 \<le> 9999"
    by (simp add: y)
  note t = generateOrderNumber_pattern [OF d r0 r1, of 0 1704495600000]
  from t [THEN conjunct2, THEN conjunct2, THEN conjunct2, THEN mp, OF yy]
  have "matches_order_number_pattern (generateOrderNumber 0 1704495600000 (2951508566879197 / 2 ^ 68))"
    by (rule conjunct1)
  with d y g show ?thesis by simp
qed

lemma chars_legal: "\<forall>c \<in> set chars. vin_legal c"
  by (simp add: chars_def vin_legal_def)

lemma charAt_random:
  assumes "is_double r" and "0 \<le> r" and "r < 1"
  shows "length (charAt chars \<lfloor>fmul r (real (length chars))\<rfloor>) = 1 \<and>
         set (charAt chars \<lfloor>fmul r (real (length chars))\<rfloor>) \<subseteq> set chars"
proof -
  have len: "length chars = 33" by (simp add: chars_def)
  have "0 \<le> \<lfloor>fmul r (real (33::nat))\<rfloor> \<and> \<lfloor>fmul r (real (33::nat))\<rfloor> < int 33"
    using assms by (rule floor_fmul_const [where k = 5]) simp_all
  then have lo: "0 \<le> \<lfloor>fmul r 33\<rfloor>" and hi: "\<lfloor>fmul r 33\<rfloor> < 33" by simp_all
  have "nat \<lfloor>fmul r 33\<rfloor> < 33" using lo hi by linarith
  then have "nat \<lfloor>fmul r 33\<rfloor> < length chars" using len by simp
  then have mem: "chars ! nat \<lfloor>fmul r 33\<rfloor> \<in> set chars" by (rule nth_mem)
  have c: "charAt chars \<lfloor>fmul r (real (length chars))\<rfloor> = [chars ! nat \<lfloor>fmul r 33\<rfloor>]"
    using lo hi by (simp add: charAt_def len)
  show ?thesis unfolding c using mem by simp
qed

lemma generateRandomVIN_loop_inv:
  "\<forall>i. is_double (random i) \<and> 0 \<le> random i \<and> random i < 1 \<Longrightarrow>
   length (generateRandomVIN_loop random i vin) = length vin + (17 - i) \<and>
   set (generateRandomVIN_loop random i vin) \<subseteq> set vin \<union> set chars"
proof (induction random i vin rule: generateRandomVIN_loop.induct)
  case (1 random i vin)
  show ?case
  proof (cases "i < 17")
    case True
    from "1.prems" have r: "is_double (random i)" "0 \<le> random i" "random i < 1" by simp_all
    note c = charAt_random [OF r]
    from "1.IH" [OF True "1.prems"] c True show ?thesis
      by (auto simp: generateRandomVIN_loop.simps [of random i vin])
  next
    case False
    then show ?thesis by (simp add: generateRandomVIN_loop.simps [of random i vin])
  qed
qed

text \<open>
  Claim C7. Whatever doubles \<^verbatim>\<open>Math.random()\<close> returns, each at least 0 and below 1, the
  string returned by \<open>generateRandomVIN\<close> has exactly 17 characters, each in
  \<^verbatim>\<open>[A-HJ-NPR-Z0-9]\<close>: the rounded product \<^verbatim>\<open>Math.random() * 33\<close> stays below 33, so
  \<^verbatim>\<open>charAt\<close> never reads past the end of the alphabet.
\<close>

theorem generateRandomVIN_legal:
  assumes "\<forall>i. is_double (random i) \<and> 0 \<le> random i \<and> random i < 1"
  shows "length (generateRandomVIN random) = 17 \<and>
         (\<forall>c \<in> set (generateRandomVIN random). vin_legal c)"
  using generateRandomVIN_loop_inv [OF assms, of 0 "[]"] chars_legal
  by (auto simp: generateRandomVIN_def)

theorem generateRandomVIN_legal_witness:
  "generateRandomVIN example_random = ''TMTMTMTMTMTMTMTMT'' \<and>
   length ''TMTMTMTMTMTMTMTMT'' = 17 \<and> vin_legal CHR ''T'' \<and> vin_legal CHR ''M''"
proof -
  have d1: "is_double (1 / 2)" by code_simp
  have d2: "is_double (6004799503160661 / 2 ^ 54)" by code_simp
  have h: "\<forall>i. is_double (example_random i) \<and> 0 \<le> example_random i \<and> example_random i < 1"
    using d1 d2 by (simp add: example_random_def)
  have g: "generateRandomVIN example_random = ''TMTMTMTMTMTMTMTMT''"
    by code_simp
  from generateRandomVIN_legal [OF h] g show ?thesis by simp
qed

text \<open>
  Claim C6. The weekday is read in local time and the day is added in local time, but
  the string is the UTC date of the result. On Saturday 2024-01-06 at 08:00 in a zone
  nine hours east of UTC (2024-01-05T23:00Z) \<open>getNextBusinessDay\<close> returns 2024-01-07,
  a Sunday, where the following Monday is 2024-01-08. On Friday 2024-01-05 at 23:30 in
  a zone five hours west of UTC it returns 2024-01-09, a Tuesday. Run when local time is
  UTC, on Friday 2024-01-05, it returns Monday 2024-01-08.
\<close>

theorem getNextBusinessDay_prints_utc_date:
  "getDay 540 1704495600000 = 6 \<and>
   before_T (toISOString (LocalTime 540 1704495600000)) = ''2024-01-06'' \<and>
   getNextBusinessDay 540 1704495600000 = ''2024-01-07'' \<and>
   WeekDay (MakeDate (days_from_civil 2024 1 7) 0) = 0 \<and>
   getDay (- 300) 1704515400000 = 5 \<and>
   before_T (toISOString (LocalTime (- 300) 1704515400000)) = ''2024-01-05'' \<and>
   getNextBusinessDay (- 300) 1704515400000 = ''2024-01-09'' \<and>
   getDay 0 1704495600000 = 5 \<and>
   getNextBusinessDay 0 1704495600000 = ''2024-01-08''"
  by code_simp

end
